theory Spec2Isabelle
  imports Complex_Main
begin

section \<open>JavaScript values used by the printer\<close>

text \<open>
  JavaScript numbers are IEEE doubles. A finite double is modelled by the real number it
  denotes (\<open>Num\<close>), and the three non-finite values are kept apart, so that a division
  by zero of the source stays visible in the model. Arithmetic on \<open>Num\<close> is exact: the
  inputs the theorems evaluate are small integers and the fractions a tile count forms,
  where the comparisons of the source (\<open>=== 1\<close>, \<open>>= minWidth\<close>) give the same answer on
  doubles as on real numbers.
\<close>

datatype jsnum = Num real | NaN | PosInf | NegInf

text \<open>
  The exceptions: a TypeError of the language, and the error an assertion of OpenLayers
  throws, with the code of the assertion.
\<close>

datatype js_error = TypeError | AssertionError nat

text \<open>\<open>a / b\<close> of two array lengths (both non-negative integers).\<close>

definition js_div_count :: "nat \<Rightarrow> nat \<Rightarrow> jsnum" where
  "js_div_count a b =
     (if b = 0 then (if a = 0 then NaN else PosInf)
      else Num (real a / real b))"

text \<open>\<open>1 - x\<close>.\<close>

fun js_one_minus :: "jsnum \<Rightarrow> jsnum" where
  "js_one_minus (Num r) = Num (1 - r)"
| "js_one_minus NaN = NaN"
| "js_one_minus PosInf = NegInf"
| "js_one_minus NegInf = PosInf"

text \<open>\<open>x -= d\<close> for a finite \<open>d\<close>.\<close>

fun js_minus :: "jsnum \<Rightarrow> real \<Rightarrow> jsnum" where
  "js_minus (Num r) d = Num (r - d)"
| "js_minus NaN d = NaN"
| "js_minus PosInf d = PosInf"
| "js_minus NegInf d = NegInf"

text \<open>\<open>Math.round\<close> on a finite number rounds half up.\<close>

definition js_round :: "real \<Rightarrow> real" where
  "js_round x = of_int \<lfloor>x + 1 / 2\<rfloor>"

text \<open>\<open>a % b\<close> on integers: the remainder takes the sign of the dividend.\<close>

definition js_rem :: "int \<Rightarrow> int \<Rightarrow> int" where
  "js_rem a b = sgn a * (\<bar>a\<bar> mod \<bar>b\<bar>)"

text \<open>\<open>Math.pow(10, n)\<close> for an integer \<open>n\<close>.\<close>

definition pow10 :: "int \<Rightarrow> real" where
  "pow10 n = (if 0 \<le> n then 10 ^ nat n else 1 / 10 ^ nat (- n))"

text \<open>
  \<open>Math.floor(Math.log(x) / Math.log(10))\<close> for a positive \<open>x\<close>, computed on integers:
  \<open>digits10 n\<close> is the number of decimal digits of \<open>n\<close>, less one. For \<open>x \<ge> 1\<close> the
  result is \<open>digits10\<close> of the integer part of \<open>x\<close>, and otherwise minus the least \<open>k\<close>
  with \<open>10 ^ k \<ge> 1 / x\<close>. (That this is the floor of the logarithm is proved below,
  \<open>floor_log10_eq\<close>.)
\<close>

fun digits10 :: "nat \<Rightarrow> nat" where
  "digits10 n = (if n < 10 then 0 else Suc (digits10 (n div 10)))"

declare digits10.simps [simp del]

definition floor_log10 :: "real \<Rightarrow> int" where
  "floor_log10 x =
     (if 1 \<le> x then int (digits10 (nat \<lfloor>x\<rfloor>))
      else - int (Suc (digits10 (nat (\<lceil>1 / x\<rceil> - 1)))))"

section \<open>Scale bar (\<open>getScaleBarParams\<close>, \<open>renderScaleBar\<close>, \<open>printScaleBar\<close>)\<close>

record ScaleBarParams =
  width :: real
  scalenumber :: real
  suffix :: string

record ScaleBarSpec =
  template :: "string option"
  position :: "string option"
  units :: "string option"

definition minWidth :: real where
  "minWidth = 64"

definition LEADING_DIGITS :: "real list" where
  "LEADING_DIGITS = [1, 2, 5]"

text \<open>
  The unit ladder of \<open>getScaleBarParams\<close>: from the units, the nominal count
  \<open>minWidth * pointResolution\<close> and the point resolution, the suffix, the rescaled point
  resolution and whether \<open>console.error\<close> was called. \<open>metersPerDegree\<close> is
  \<open>METERS_PER_UNIT[ProjUnits.DEGREES]\<close> of OpenLayers, the unit names are those of
  \<open>ol/control/ScaleLine\<close>. A string is a list of bytes: the suffixes that are not
  ASCII (U+2033, U+2032, U+00B0 and the micro sign of \<open>um\<close>) are given in UTF-8.
\<close>

definition suffix_seconds :: string where
  "suffix_seconds = [CHR 0xE2, CHR 0x80, CHR 0xB3]"

definition suffix_minutes :: string where
  "suffix_minutes = [CHR 0xE2, CHR 0x80, CHR 0xB2]"

definition suffix_degrees :: string where
  "suffix_degrees = [CHR 0xC2, CHR 0xB0]"

definition suffix_micrometres :: string where
  "suffix_micrometres = [CHR 0xCE, CHR 0xBC, CHR ''m'']"

definition invalidUnitsMessage :: string where
  "invalidUnitsMessage = ''Invalid units: Please verify your scaleBar object''"

definition unitLadder :: "real \<Rightarrow> string \<Rightarrow> real \<Rightarrow> string \<times> real \<times> string list" where
  "unitLadder metersPerDegree u pointResolution =
     (let nominalCount = minWidth * pointResolution in
      if u = ''degrees'' then
        (let nominalCount = nominalCount * metersPerDegree in
         if nominalCount < metersPerDegree / 60 then (suffix_seconds, pointResolution * 3600, [])
         else if nominalCount < metersPerDegree then (suffix_minutes, pointResolution * 60, [])
         else (suffix_degrees, pointResolution, []))
      else if u = ''imperial'' then
        (if nominalCount < 9144 / 10000 then (''in'', pointResolution / (254 / 10000), [])
         else if nominalCount < 1609344 / 1000 then (''ft'', pointResolution / (3048 / 10000), [])
         else (''mi'', pointResolution / (1609344 / 1000), []))
      else if u = ''nautical'' then (''nm'', pointResolution / 1852, [])
      else if u = ''metric'' then
        (if nominalCount < 1 / 1000 then (suffix_micrometres, pointResolution * 1000000, [])
         else if nominalCount < 1 then (''mm'', pointResolution * 1000, [])
         else if nominalCount < 1000 then (''m'', pointResolution, [])
         else (''km'', pointResolution / 1000, []))
      else if u = ''us'' then
        (if nominalCount < 9144 / 10000 then (''in'', pointResolution * (3937 / 100), [])
         else if nominalCount < 1609344 / 1000 then (''ft'', pointResolution / (30480061 / 100000000), [])
         else (''mi'', pointResolution / (16093472 / 10000), []))
      else ('''', pointResolution, [invalidUnitsMessage]))"

text \<open>
  The \<open>while (true)\<close> loop: it leaves with the width and the count once the rounded
  width reaches \<open>minWidth\<close>, and goes on with \<open>i + 1\<close> otherwise. It is entered with a
  positive point resolution only (see \<open>getScaleBarParams\<close>), where no width is NaN.
\<close>

partial_function (option) scaleSearch :: "real \<Rightarrow> int \<Rightarrow> (real \<times> real) option" where
  "scaleSearch pointResolution i =
     (let decimalCount = i div 3;
          decimal = pow10 decimalCount;
          count = LEADING_DIGITS ! nat (js_rem (js_rem i 3 + 3) 3) * decimal;
          w = js_round (count / pointResolution)
      in if minWidth \<le> w then Some (w, count)
         else scaleSearch pointResolution (i + 1))"

declare scaleSearch.simps [code]

text \<open>
  \<open>getScaleBarParams\<close>. \<open>pointResolutionIn\<close> stands for OpenLayers'
  \<open>getPointResolution\<close> at the frame's projection, resolution and centre, as a function
  of the requested units (\<open>''degrees''\<close> or \<open>''m''\<close>). The result is the console output
  and \<open>None\<close> when the loop does not return, \<open>Some None\<close> for \<open>return;\<close> (undefined),
  \<open>Some (Some p)\<close> for the parameters. With a point resolution that is not positive,
  \<open>Math.log\<close> gives NaN or \<open>-Infinity\<close>, the first width is NaN and the function returns
  undefined.
\<close>

definition getScaleBarParams ::
  "real \<Rightarrow> (string \<Rightarrow> real) \<Rightarrow> ScaleBarSpec \<Rightarrow> string list \<times> ScaleBarParams option option" where
  "getScaleBarParams metersPerDegree pointResolutionIn scaleBar =
     (let u = (case units scaleBar of None \<Rightarrow> ''metric''
                 | Some s \<Rightarrow> if s = [] then ''metric'' else s);
          pointResolutionUnits = (if u = ''degrees'' then ''degrees'' else ''m'');
          pointResolution = pointResolutionIn pointResolutionUnits;
          (sfx, pointResolution, console) = unitLadder metersPerDegree u pointResolution
      in if minWidth * pointResolution \<le> 0 then (console, Some None)
         else (console,
           map_option (\<lambda>(w, count). Some \<lparr>width = w, scalenumber = count, suffix = sfx\<rparr>)
             (scaleSearch pointResolution (3 * floor_log10 (minWidth * pointResolution)))))"

text \<open>
  The 2D context: the calls \<open>renderScaleBar\<close> makes on it, in order. The height of its
  canvas is read, text is measured by the platform (\<open>measureText\<close>, the width of
  \<open>ctx.measureText(text)\<close>) and numbers are printed by the platform (\<open>numToString\<close>,
  JavaScript's conversion of a number in a template literal).
\<close>

datatype canvas_op =
    Save
  | Restore
  | GlobalAlpha real
  | BeginPath
  | TextAlign string
  | StrokeStyle string
  | FillStyle string
  | LineWidth real
  | Font string
  | StrokeText string real real
  | FillText string real real
  | MoveTo real real
  | LineTo real real
  | Stroke

text \<open>
  \<open>renderScaleBar\<close>: reading \<open>scaleBarParams.width\<close> of undefined is a TypeError, thrown
  before any call on the context. \<open>canvasHeight\<close> is \<open>ctx.canvas.height\<close> and
  \<open>frameWidth\<close> is \<open>frameState.size[0]\<close>.
\<close>

definition renderScaleBar ::
  "(string \<Rightarrow> real) \<Rightarrow> (real \<Rightarrow> string) \<Rightarrow> real \<Rightarrow> real \<Rightarrow> ScaleBarParams option
     \<Rightarrow> ScaleBarSpec \<Rightarrow> js_error + canvas_op list" where
  "renderScaleBar measureText numToString canvasHeight frameWidth scaleBarParams scaleBar =
     (case scaleBarParams of
        None \<Rightarrow> Inl TypeError
      | Some params \<Rightarrow>
         (let scaleWidth = width params;
              scaleNumber = scalenumber params;
              scaleUnit = suffix params;
              scaleText = numToString scaleNumber @ '' '' @ scaleUnit;
              scaleTextWidth = measureText scaleText;
              line1 = 6;
              scaleTotalWidth = scaleWidth + scaleTextWidth;
              xOffset = (if position scaleBar = Some ''bottom-right''
                         then frameWidth - scaleTotalWidth - 20 else 10);
              yOffset = 10;
              fontsize1 = 12;
              font1 = ''12px Arial'';
              oddColor = ''#000000'';
              evenColor = ''#FFFFFF'';
              xzero = scaleWidth + xOffset;
              yzero = canvasHeight - yOffset;
              xfirst = xOffset + (scaleWidth * 1) / 4;
              xsecond = xfirst + (scaleWidth * 1) / 4;
              xthird = xsecond + (scaleWidth * 1) / 4;
              xfourth = xthird + (scaleWidth * 1) / 4
          in Inr
            [Save, GlobalAlpha (8 / 10),
             BeginPath, TextAlign ''left'', StrokeStyle ''#ffffff'', FillStyle ''#000000'',
             LineWidth 5, Font font1,
             StrokeText scaleText (xzero + 5) (yzero + fontsize1 / 2),
             FillText scaleText (xzero + 5) (yzero + fontsize1 / 2),
             BeginPath, LineWidth (line1 + 2), StrokeStyle ''#000000'',
             MoveTo xOffset yzero, LineTo (xzero + 1) yzero, Stroke,
             BeginPath, LineWidth line1, StrokeStyle oddColor,
             MoveTo xOffset yzero, LineTo xfirst yzero, Stroke,
             BeginPath, LineWidth line1, StrokeStyle evenColor,
             MoveTo xfirst yzero, LineTo xsecond yzero, Stroke,
             BeginPath, LineWidth line1, StrokeStyle oddColor,
             MoveTo xsecond yzero, LineTo xthird yzero, Stroke,
             BeginPath, LineWidth line1, StrokeStyle evenColor,
             MoveTo xthird yzero, LineTo xfourth yzero, Stroke,
             Restore]))"

text \<open>
  \<open>printScaleBar\<close>: the console output of \<open>getScaleBarParams\<close> and what
  \<open>renderScaleBar\<close> draws with its result, whatever that result is. \<open>None\<close> when the
  search loop does not return.
\<close>

definition printScaleBar ::
  "real \<Rightarrow> (string \<Rightarrow> real) \<Rightarrow> (string \<Rightarrow> real) \<Rightarrow> (real \<Rightarrow> string) \<Rightarrow> real \<Rightarrow> real
     \<Rightarrow> ScaleBarSpec \<Rightarrow> (string list \<times> (js_error + canvas_op list)) option" where
  "printScaleBar metersPerDegree pointResolutionIn measureText numToString canvasHeight
     frameWidth scaleBar =
     (case getScaleBarParams metersPerDegree pointResolutionIn scaleBar of
        (console, None) \<Rightarrow> None
      | (console, Some scaleBarParams) \<Rightarrow>
          Some (console,
            renderScaleBar measureText numToString canvasHeight frameWidth scaleBarParams
              scaleBar))"

section \<open>WFS request URL (\<open>generateGetFeatureUrl\<close>)\<close>

text \<open>
  A parsed URL as the platform's \<open>URL\<close> object holds it: what precedes the query, the
  query as an ordered list of name-value pairs, and the fragment. Parsing
  (\<open>new URL(baseUrl)\<close>, which throws a TypeError on a string that is no URL) and
  serialising (\<open>urlObj.href\<close>) belong to the platform and are parameters.
\<close>

record URL =
  url_base :: string
  searchParams :: "(string \<times> string) list"
  url_hash :: string

text \<open>
  \<open>URLSearchParams.set\<close>: the first pair of that name takes the value and the other
  pairs of that name are removed; without such a pair, one is appended.
\<close>

fun searchParams_set :: "string \<Rightarrow> string \<Rightarrow> (string \<times> string) list \<Rightarrow> (string \<times> string) list" where
  "searchParams_set name v [] = [(name, v)]"
| "searchParams_set name v ((k, w) # ps) =
     (if k = name then (name, v) # filter (\<lambda>(a, _). a \<noteq> name) ps
      else (k, w) # searchParams_set name v ps)"

text \<open>\<open>URLSearchParams.get\<close>: the value of the first pair of that name.\<close>

definition searchParams_get :: "(string \<times> string) list \<Rightarrow> string \<Rightarrow> string option" where
  "searchParams_get ps name = map_of ps name"

text \<open>\<open>Array.prototype.join(',')\<close> on strings.\<close>

fun join_comma :: "string list \<Rightarrow> string" where
  "join_comma [] = []"
| "join_comma [x] = x"
| "join_comma (x # y # ys) = x @ '','' @ join_comma (y # ys)"

text \<open>The calls of \<open>generateGetFeatureUrl\<close> on the parsed URL, in the order of the source.\<close>

definition setGetFeatureParams ::
  "(real \<Rightarrow> string) \<Rightarrow> string \<Rightarrow> string \<Rightarrow> string option \<Rightarrow> string \<Rightarrow> real list \<Rightarrow> URL \<Rightarrow> URL" where
  "setGetFeatureParams numToString wfsVersion layerName format projCode extent urlObj =
     (let typeNameLabel = (if wfsVersion = ''2.0.0'' then ''typenames'' else ''typename'');
          ps = searchParams urlObj;
          ps = searchParams_set ''SERVICE'' ''WFS'' ps;
          ps = searchParams_set ''version'' wfsVersion ps;
          ps = searchParams_set ''request'' ''GetFeature'' ps;
          ps = searchParams_set typeNameLabel layerName ps;
          ps = searchParams_set ''srsName'' projCode ps;
          ps = searchParams_set ''bbox''
                 (join_comma (map numToString extent) @ '','' @ projCode) ps;
          ps = (if format = Some ''geojson''
                then searchParams_set ''outputFormat'' ''application/json'' ps else ps)
      in urlObj\<lparr>searchParams := ps\<rparr>)"

definition generateGetFeatureUrl ::
  "(string \<Rightarrow> URL option) \<Rightarrow> (URL \<Rightarrow> string) \<Rightarrow> (real \<Rightarrow> string) \<Rightarrow> string \<Rightarrow> string
     \<Rightarrow> string \<Rightarrow> string option \<Rightarrow> string \<Rightarrow> real list \<Rightarrow> js_error + string" where
  "generateGetFeatureUrl parseURL href numToString baseUrl wfsVersion layerName format
     projCode extent =
     (if take 4 baseUrl \<noteq> ''http'' then Inr baseUrl
      else case parseURL baseUrl of
             None \<Rightarrow> Inl TypeError
           | Some urlObj \<Rightarrow>
               Inr (href (setGetFeatureParams numToString wfsVersion layerName format
                            projCode extent urlObj)))"

section \<open>Layer render tasks (\<open>printer/layers.js\<close>)\<close>

subsection \<open>Print specification of a layer\<close>

text \<open>
  A matrix id is a string when the specification gives it and a number when
  \<open>createLayerWMTS\<close> generates it.
\<close>

datatype matrix_id = IdNum nat | IdStr string

text \<open>
  The \<open>tileGrid\<close> of a WMTS layer. A field that the object does not have (undefined) is
  \<open>None\<close>.
\<close>

record TileGrid =
  resolutions :: "real list option"
  extent :: "real list option"
  matrixIds :: "matrix_id list option"
  tileSize :: "real option"

text \<open>
  A layer of the print specification: \<open>type\<close>, \<open>url\<close>, \<open>layer\<close>, \<open>opacity\<close> and the
  fields of the variants (\<open>tiled\<close> for WMS; \<open>version\<close> and \<open>format\<close> for WFS;
  \<open>projection\<close>, \<open>tileGrid\<close>, \<open>matrixSet\<close>, \<open>style\<close>, \<open>requestEncoding\<close> for WMTS).
\<close>

record Layer =
  spec_type :: string
  spec_url :: string
  spec_layer :: string
  spec_opacity :: "real option"
  spec_tiled :: bool
  spec_version :: "string option"
  spec_format :: "string option"
  spec_projection :: string
  spec_tileGrid :: "TileGrid option"
  spec_matrixSet :: "string option"
  spec_style :: "string option"
  spec_requestEncoding :: "string option"

subsection \<open>OpenLayers objects the tasks build\<close>

text \<open>The options \<open>WMTSTileGrid\<close> is constructed with: the given grid, extent and ids set.\<close>

record WMTSTileGridOptions =
  grid_resolutions :: "real list option"
  grid_extent :: "real list"
  grid_matrixIds :: "matrix_id list"
  grid_tileSize :: "real option"

datatype wfs_format = GeoJSON | WFS string

text \<open>
  The sources, by their constructor and the options that vary (every raster source also
  gets \<open>crossOrigin: 'anonymous'\<close>; tiled ones \<open>transition: 0\<close>, \<open>TileWMS\<close> the parameter
  \<open>TILED: true\<close> and \<open>ImageWMS\<close> \<open>ratio: 1\<close>). A \<open>VectorSource\<close> has its format and the
  request its loader sends.
\<close>

datatype ol_source =
    XYZ string
  | TileWMS string string
  | ImageWMS string string
  | WMTS Layer WMTSTileGridOptions string
  | VectorSource wfs_format string

datatype ol_layer = TileLayer ol_source | ImageLayer ol_source | VectorLayer ol_source

record LayerState =
  layer :: ol_layer
  managed :: bool
  maxResolution :: "real option"
  maxZoom :: "real option"
  minResolution :: real
  minZoom :: "real option"
  opacity :: real
  sourceState :: string
  visible :: bool
  zIndex :: int

text \<open>
  The frame state: the fields the tasks read and write; the others (view state, tile
  queue, ...) are carried along in the record's extension, as the spread
  \<open>...rootFrameState\<close> does.
\<close>

record FrameState =
  frame_size :: "real \<times> real"
  pixelRatio :: real
  layerStatesArray :: "LayerState list"

definition setFrameState ::
  "'a FrameState_scheme \<Rightarrow> ol_layer \<Rightarrow> real option \<Rightarrow> 'a FrameState_scheme" where
  "setFrameState rootFrameState lyr opac =
     rootFrameState\<lparr>layerStatesArray :=
       [\<lparr>layer = lyr, managed = True, maxResolution = None, maxZoom = None,
         minResolution = 0, minZoom = None,
         opacity = (case opac of Some x \<Rightarrow> x | None \<Rightarrow> 1),
         sourceState = ''ready'', visible = True, zIndex = 0\<rparr>]\<rparr>"

text \<open>
  The canvas of a task: its size and how many times \<open>renderFrame\<close> has drawn the layer
  on it.
\<close>

record Canvas =
  canvas_width :: real
  canvas_height :: real
  framesRendered :: nat

definition createCanvasContext2D :: "real \<Rightarrow> real \<Rightarrow> Canvas" where
  "createCanvasContext2D w h = \<lparr>canvas_width = w, canvas_height = h, framesRendered = 0\<rparr>"

definition renderFrame :: "Canvas \<Rightarrow> Canvas" where
  "renderFrame c = c\<lparr>framesRendered := Suc (framesRendered c)\<rparr>"

text \<open>
  \<open>LayerPrintStatus\<close>: the array \<open>[progress, canvas, loadErrorUrl]\<close> a task emits; null
  and undefined are \<open>None\<close>.
\<close>

record LayerPrintStatus =
  progress :: jsnum
  surface :: "Canvas option"
  loadErrorUrl :: "string option"

text \<open>
  What OpenLayers and the platform decide: \<open>extentFromProjection\<close>; \<open>expandUrl\<close>, by
  which a tile source turns its \<open>url\<close> option into the list \<open>getUrls()\<close> answers (a
  template with a range such as \<open>{a-c}\<close> gives one URL per value, any other URL
  itself); the number of tiles the first \<open>renderFrame\<close> of a tiled source puts in the
  tile queue; the extent and the projection code the vector source hands to its loader;
  the URL functions of \<open>generateGetFeatureUrl\<close>; and whether \<open>new WMTSTileGrid(options)\<close>
  accepts its options: \<open>tileGridRejects\<close> gives the error the constructor throws (a
  TypeError when the options have no resolutions, the error of assertion 17 when the
  resolutions are not in descending order, ...), and \<open>None\<close> when the grid is constructed.
\<close>

record Platform =
  extentFromProjection :: "string \<Rightarrow> real list"
  tileGridRejects :: "WMTSTileGridOptions \<Rightarrow> js_error option"
  expandUrl :: "string \<Rightarrow> string list"
  queuedByFirstRender :: "ol_source \<Rightarrow> nat"
  loaderExtent :: "real list"
  loaderProjCode :: string
  env_parseURL :: "string \<Rightarrow> URL option"
  env_href :: "URL \<Rightarrow> string"
  env_numToString :: "real \<Rightarrow> string"

text \<open>
  \<open>getUrls()\<close> of a tile source and \<open>getUrl()\<close> of an image source. Only \<open>XYZ\<close>,
  \<open>TileWMS\<close> and \<open>WMTS\<close> sources are given to \<open>createTiledLayer\<close>, and only an
  \<open>ImageWMS\<close> source gets the listener that calls \<open>getUrl()\<close>.
\<close>

fun getUrls :: "Platform \<Rightarrow> ol_source \<Rightarrow> string list" where
  "getUrls env (XYZ u) = expandUrl env u"
| "getUrls env (TileWMS u _) = expandUrl env u"
| "getUrls env (WMTS layerSpec _ _) = expandUrl env (spec_url layerSpec)"
| "getUrls env _ = []"


fun getSource :: "ol_layer \<Rightarrow> ol_source" where
  "getSource (TileLayer src) = src"
| "getSource (ImageLayer src) = src"
| "getSource (VectorLayer src) = src"

subsection \<open>Tiled layers (\<open>createTiledLayer\<close>)\<close>

text \<open>
  The observable \<open>createTiledLayer\<close> returns is modelled by the state it closes over
  and what it has emitted. \<open>tileCount\<close> is the length of the tile queue after the first
  \<open>renderFrame\<close>.
\<close>

record TiledTask =
  tiled_layer :: ol_layer
  tiled_frameState :: FrameState
  tiled_canvas :: Canvas
  tileCount :: nat
  tileLoadErrorUrl :: "string option"
  tiled_emitted :: "LayerPrintStatus list"
  tiled_completed :: bool

definition createTiledLayer :: "Platform \<Rightarrow> ol_source \<Rightarrow> FrameState \<Rightarrow> real option \<Rightarrow> TiledTask" where
  "createTiledLayer env source rootFrameState opac =
     (let w = fst (frame_size rootFrameState);
          h = snd (frame_size rootFrameState);
          canvas = createCanvasContext2D w h;
          lyr = TileLayer source;
          frameState = setFrameState rootFrameState lyr opac;
          canvas = renderFrame canvas
      in \<lparr>tiled_layer = lyr, tiled_frameState = frameState, tiled_canvas = canvas,
          tileCount = queuedByFirstRender env source, tileLoadErrorUrl = None,
          tiled_emitted = [], tiled_completed = False\<rparr>)"

text \<open>
  What happens to the task: the source fires \<open>tileloaderror\<close> (the target of the
  event is the source), or the stream ticks (at subscription and then every 500 ms).
  At a tick \<open>takeWhile\<close> calls \<open>reprioritize\<close> and \<open>loadMoreTiles(12, 4)\<close> on the tile
  queue of OpenLayers; \<open>Tick queued loading\<close> carries what the queue holds afterwards:
  the number of keys in \<open>queuedElements_\<close> and \<open>getTilesLoading()\<close>. Both the predicate
  of \<open>takeWhile\<close> and the function of \<open>map\<close> read the queue in that state.
  (\<open>loadMoreTiles\<close> takes tiles from the queue until four loads are started, twelve are
  in flight or the queue is empty, and loads end asynchronously; so in OpenLayers a tick
  that finds nothing loading finds the queue empty.)
\<close>

datatype tiled_event = TileLoadError | Tick nat nat

text \<open>The function given to \<open>map\<close>: the status and the canvas after it.\<close>

definition tiledStatus :: "TiledTask \<Rightarrow> nat \<Rightarrow> nat \<Rightarrow> LayerPrintStatus \<times> Canvas" where
  "tiledStatus t queued loading =
     (let loadedTilesCount = queued;
          prog = js_one_minus (js_div_count loadedTilesCount (tileCount t));
          prog = (if prog = Num 1 \<and> 0 < loading then js_minus prog (1 / 1000) else prog)
      in if prog = Num 1 then
           (let canvas = renderFrame (tiled_canvas t)
            in (\<lparr>progress = Num 1, surface = Some canvas,
                  loadErrorUrl = tileLoadErrorUrl t\<rparr>, canvas))
         else (\<lparr>progress = prog, surface = None, loadErrorUrl = tileLoadErrorUrl t\<rparr>,
               tiled_canvas t))"

text \<open>
  One event. \<open>takeWhile\<close> is inclusive: the tick at which nothing is loading any more
  still emits, and completes the stream; later ticks do not reach it. \<open>throttleTime\<close>
  with a leading and a trailing emission only withholds values between the first and
  the last, and is not modelled.
\<close>

fun tiledStep :: "Platform \<Rightarrow> TiledTask \<Rightarrow> tiled_event \<Rightarrow> TiledTask" where
  "tiledStep env t TileLoadError =
     t\<lparr>tileLoadErrorUrl :=
         (case getUrls env (getSource (tiled_layer t)) of [] \<Rightarrow> None | u # _ \<Rightarrow> Some u)\<rparr>"
| "tiledStep env t (Tick queued loading) =
     (if tiled_completed t then t
      else (let (status, canvas) = tiledStatus t queued loading
            in t\<lparr>tiled_canvas := canvas,
                 tiled_emitted := tiled_emitted t @ [status],
                 tiled_completed := (loading = 0)\<rparr>))"

definition tiledRun :: "Platform \<Rightarrow> TiledTask \<Rightarrow> tiled_event list \<Rightarrow> TiledTask" where
  "tiledRun env = foldl (tiledStep env)"

definition createLayerXYZ :: "Platform \<Rightarrow> Layer \<Rightarrow> FrameState \<Rightarrow> TiledTask" where
  "createLayerXYZ env layerSpec rootFrameState =
     createTiledLayer env (XYZ (spec_url layerSpec)) rootFrameState (spec_opacity layerSpec)"

subsection \<open>Behaviour subjects\<close>

text \<open>
  A \<open>BehaviorSubject\<close>: what it has emitted, starting with its initial value, and
  whether it has completed. \<open>next\<close> on a completed subject does nothing.
\<close>

record Subject =
  emitted :: "LayerPrintStatus list"
  completed :: bool

definition newBehaviorSubject :: "LayerPrintStatus \<Rightarrow> Subject" where
  "newBehaviorSubject v = \<lparr>emitted = [v], completed = False\<rparr>"

definition subject_next :: "LayerPrintStatus \<Rightarrow> Subject \<Rightarrow> Subject" where
  "subject_next v s = (if completed s then s else s\<lparr>emitted := emitted s @ [v]\<rparr>)"

definition subject_complete :: "Subject \<Rightarrow> Subject" where
  "subject_complete s = s\<lparr>completed := True\<rparr>"


subsection \<open>WFS (\<open>createLayerWFS\<close>)\<close>

text \<open>
  The task of a WFS layer. Its loader runs when \<open>prepareFrame\<close> makes the vector source
  load the extent of the frame: it builds the request with \<open>generateGetFeatureUrl\<close>
  (whose TypeError leaves \<open>createLayerWFS\<close> through \<open>prepareFrame\<close>) and sends it. The
  answer to the request is an event of the task.
\<close>

record VectorTask =
  vector_layer :: ol_layer
  vector_frameState :: FrameState
  vector_canvas :: Canvas
  vector_progress :: Subject
  vector_url :: string





text \<open>
  \<open>layerSpec.version || '1.1.0'\<close>: the default also replaces an empty string.
  \<open>setFrameState\<close> is called with two arguments, so its \<open>opacity\<close> is undefined.
\<close>

definition createLayerWFS :: "Platform \<Rightarrow> Layer \<Rightarrow> FrameState \<Rightarrow> js_error + VectorTask" where
  "createLayerWFS env layerSpec rootFrameState =
     (let w = fst (frame_size rootFrameState);
          h = snd (frame_size rootFrameState);
          canvas = createCanvasContext2D w h;
          version = (case spec_version layerSpec of None \<Rightarrow> ''1.1.0''
                       | Some v \<Rightarrow> if v = [] then ''1.1.0'' else v);
          format = (if spec_format layerSpec = Some ''geojson'' then GeoJSON else WFS version);
          requestUrl = generateGetFeatureUrl (env_parseURL env) (env_href env)
                         (env_numToString env) (spec_url layerSpec) version
                         (spec_layer layerSpec) (spec_format layerSpec)
                         (loaderProjCode env) (loaderExtent env)
      in case requestUrl of
           Inl e \<Rightarrow> Inl e
         | Inr requestUrl \<Rightarrow>
            (let lyr = VectorLayer (VectorSource format requestUrl);
                 frameState = setFrameState rootFrameState lyr None;
                 progress_subject = newBehaviorSubject
                   \<lparr>progress = Num 0, surface = None, loadErrorUrl = None\<rparr>
             in Inr \<lparr>vector_layer = lyr, vector_frameState = frameState,
                     vector_canvas = canvas, vector_progress = progress_subject,
                     vector_url = spec_url layerSpec\<rparr>))"

subsection \<open>Single-image WMS (\<open>createLayerWMS\<close>)\<close>

text \<open>
  The task of a WMS layer that is not tiled. The two listeners are registered with
  \<open>once\<close>: each runs at its first event only.
\<close>

record ImageTask =
  image_layer :: ol_layer
  image_frameState :: FrameState
  image_canvas :: Canvas
  image_progress :: Subject
  onImageLoadError :: bool
  onImageLoadEnd :: bool





text \<open>
  The task \<open>createLayer\<close> returns is of one of three kinds: tiled, single image, or
  vector.
\<close>

datatype LayerTask = Tiled TiledTask | SingleImage ImageTask | Vector VectorTask

definition createLayerWMS :: "Platform \<Rightarrow> Layer \<Rightarrow> FrameState \<Rightarrow> LayerTask" where
  "createLayerWMS env layerSpec rootFrameState =
     (if spec_tiled layerSpec then
        Tiled (createTiledLayer env (TileWMS (spec_url layerSpec) (spec_layer layerSpec))
                 rootFrameState (spec_opacity layerSpec))
      else
        (let w = fst (frame_size rootFrameState);
             h = snd (frame_size rootFrameState);
             canvas = createCanvasContext2D w h;
             lyr = ImageLayer (ImageWMS (spec_url layerSpec) (spec_layer layerSpec));
             frameState = setFrameState rootFrameState lyr (spec_opacity layerSpec);
             progress_subject = newBehaviorSubject
               \<lparr>progress = Num 0, surface = None, loadErrorUrl = None\<rparr>
         in SingleImage
              \<lparr>image_layer = lyr, image_frameState = frameState, image_canvas = canvas,
               image_progress = progress_subject, onImageLoadError = True,
               onImageLoadEnd = True\<rparr>))"

subsection \<open>WMTS (\<open>createLayerWMTS\<close>)\<close>

text \<open>
  Destructuring an undefined \<open>tileGrid\<close> and reading \<open>resolutions.length\<close> of an
  undefined \<open>resolutions\<close> are TypeErrors. An array, also an empty one, is truthy, so
  \<open>||\<close> takes the default only for a field that is not there.
  \<open>[...Array(n).keys()]\<close> is the array of the numbers from \<open>0\<close> to \<open>n - 1\<close>.
  \<open>new WMTSTileGrid\<close> is given the grid of the specification with the extent and the
  matrix ids set; when it throws, so does \<open>createLayerWMTS\<close>, and no source, layer or
  stream is made.
\<close>

definition createLayerWMTS :: "Platform \<Rightarrow> Layer \<Rightarrow> FrameState \<Rightarrow> js_error + TiledTask" where
  "createLayerWMTS env layerSpec rootFrameState =
     (case spec_tileGrid layerSpec of
        None \<Rightarrow> Inl TypeError
      | Some tileGrid \<Rightarrow>
         (let ext = (case extent tileGrid of Some e \<Rightarrow> e
                       | None \<Rightarrow> extentFromProjection env (spec_projection layerSpec));
              ids = (case matrixIds tileGrid of
                       Some m \<Rightarrow> Inr m
                     | None \<Rightarrow> (case resolutions tileGrid of
                                  None \<Rightarrow> Inl TypeError
                                | Some r \<Rightarrow> Inr (map IdNum [0 ..< length r])))
          in case ids of
               Inl e \<Rightarrow> Inl e
             | Inr ids \<Rightarrow>
                (let grid = \<lparr>grid_resolutions = resolutions tileGrid, grid_extent = ext,
                             grid_matrixIds = ids, grid_tileSize = tileSize tileGrid\<rparr>
                 in case tileGridRejects env grid of
                      Some e \<Rightarrow> Inl e
                    | None \<Rightarrow>
                        Inr (createTiledLayer env
                              (WMTS layerSpec grid (spec_projection layerSpec))
                              rootFrameState (spec_opacity layerSpec)))))"

subsection \<open>Dispatch on the type (\<open>createLayer\<close>)\<close>

text \<open>
  \<open>createLayer\<close>: the \<open>switch\<close> has four cases and no default, so for any other type the
  function ends without a \<open>return\<close>: its value is undefined (\<open>Inr None\<close>). \<open>Inl\<close> is an
  exception thrown by the creating function.
\<close>

definition createLayer :: "Platform \<Rightarrow> Layer \<Rightarrow> FrameState \<Rightarrow> js_error + LayerTask option" where
  "createLayer env layerSpec rootFrameState =
     (if spec_type layerSpec = ''XYZ'' then
        Inr (Some (Tiled (createLayerXYZ env layerSpec rootFrameState)))
      else if spec_type layerSpec = ''WMS'' then
        Inr (Some (createLayerWMS env layerSpec rootFrameState))
      else if spec_type layerSpec = ''WMTS'' then
        (case createLayerWMTS env layerSpec rootFrameState of
           Inl e \<Rightarrow> Inl e
         | Inr t \<Rightarrow> Inr (Some (Tiled t)))
      else if spec_type layerSpec = ''WFS'' then
        (case createLayerWFS env layerSpec rootFrameState of
           Inl e \<Rightarrow> Inl e
         | Inr t \<Rightarrow> Inr (Some (Vector t)))
      else Inr None)"

section \<open>The \<open>Image\<close> class of the worker (\<open>worker/polyfills.js\<close>)\<close>

text \<open>
  An \<open>Image\<close> of the worker: its size fields, whether \<open>drawImage\<close> has drawn into it,
  the URLs whose \<open>fetch\<close> has not settled, and its load promise: whether it is
  resolved, the callbacks \<open>then\<close> has registered that wait for it, and the callbacks
  that have been called, in order. \<open>'cb\<close> is the type of the callbacks.
\<close>

record 'cb Image =
  img_src :: "string option"
  img_width :: real
  img_height :: real
  naturalWidth :: real
  naturalHeight :: real
  drawn :: bool
  inFlight :: "string list"
  loadResolved :: bool
  loadWaiting :: "'cb list"
  called :: "'cb list"

definition hintImageSize :: "real \<Rightarrow> real \<Rightarrow> 'cb Image \<Rightarrow> 'cb Image" where
  "hintImageSize w h img =
     img\<lparr>img_width := w, img_height := h, naturalWidth := w, naturalHeight := h\<rparr>"

definition newImage :: "'cb Image" where
  "newImage = hintImageSize 1 1
     \<lparr>img_src = None, img_width = 1, img_height = 1, naturalWidth = 1, naturalHeight = 1,
      drawn = False, inFlight = [], loadResolved = False, loadWaiting = [], called = []\<rparr>"

text \<open>
  How the promise chain of the \<open>src\<close> setter ends: \<open>fetch\<close> rejects (the request
  fails), \<open>response.blob()\<close> rejects, \<open>createImageBitmap\<close> rejects (the body is no
  image, as the page of an HTTP error), or the bitmap is there. No link of the chain has
  a rejection handler.
\<close>

datatype fetch_outcome = FetchRejected | BlobRejected | BitmapRejected | BitmapReady

datatype 'cb image_call =
    HintImageSize real real
  | SetSrc string
  | GetSrc
  | AddEventListener string 'cb
  | RemoveEventListener string 'cb
  | FetchSettled string fetch_outcome

text \<open>
  \<open>loadPromiseResolver()\<close>: the first call resolves the promise and the waiting
  callbacks are called; a later call does nothing.
\<close>

definition loadPromiseResolver :: "'cb Image \<Rightarrow> 'cb Image" where
  "loadPromiseResolver img =
     (if loadResolved img then img
      else img\<lparr>loadResolved := True, called := called img @ loadWaiting img,
               loadWaiting := []\<rparr>)"

text \<open>\<open>loadPromise.then(callback)\<close>.\<close>

definition loadPromise_then :: "'cb \<Rightarrow> 'cb Image \<Rightarrow> 'cb Image" where
  "loadPromise_then callback img =
     (if loadResolved img then img\<lparr>called := called img @ [callback]\<rparr>
      else img\<lparr>loadWaiting := loadWaiting img @ [callback]\<rparr>)"

fun imageCall :: "'cb Image \<Rightarrow> 'cb image_call \<Rightarrow> 'cb Image" where
  "imageCall img (HintImageSize w h) = hintImageSize w h img"
| "imageCall img (SetSrc u) = img\<lparr>inFlight := inFlight img @ [u]\<rparr>"
| "imageCall img GetSrc = img"
| "imageCall img (AddEventListener eventName callback) =
     (if eventName = ''load'' then loadPromise_then callback img else img)"
| "imageCall img (RemoveEventListener eventName callback) = img"
| "imageCall img (FetchSettled u outcome) =
     (if u \<in> set (inFlight img) then
        (let img = img\<lparr>inFlight := remove1 u (inFlight img)\<rparr>
         in if outcome = BitmapReady then loadPromiseResolver (img\<lparr>drawn := True\<rparr>)
            else img)
      else img)"

definition imageCalls :: "'cb image_call list \<Rightarrow> 'cb Image" where
  "imageCalls = foldl imageCall newImage"

text \<open>The frame state a task renders with.\<close>

fun taskFrameState :: "LayerTask \<Rightarrow> FrameState" where
  "taskFrameState (Tiled t) = tiled_frameState t"
| "taskFrameState (SingleImage t) = image_frameState t"
| "taskFrameState (Vector t) = vector_frameState t"

section \<open>Sample inputs\<close>

text \<open>
  Inputs at which the theorems below are evaluated: a platform whose URL parser keeps
  the string as the part before an empty query, whose serialiser lists the pairs of the
  query after that part, whose tile sources queue two tiles, and whose tile grids are
  accepted when they have resolutions in descending order; a frame of 256 by 256
  pixels; a layer at \<open>http://example.org/wfs\<close> with opacity one half. \<open>rangeEnv\<close> is
  the same platform, expanding the URL template \<open>http://{a-b}.example.org/t.png\<close> to
  its two URLs as OpenLayers does.
\<close>

abbreviation sampleEnv :: Platform where
  "sampleEnv \<equiv>
     \<lparr>extentFromProjection = (\<lambda>_. [0, 0, 1, 1]),
      tileGridRejects =
        (\<lambda>g. case grid_resolutions g of
                None \<Rightarrow> Some TypeError
              | Some rs \<Rightarrow> if sorted_wrt (\<lambda>a b. b < a) rs then None
                           else Some (AssertionError 17)),
      expandUrl = (\<lambda>u. [u]),
      queuedByFirstRender = (\<lambda>_. 2),
      loaderExtent = [0, 0, 0, 0],
      loaderProjCode = ''EPSG:3857'',
      env_parseURL = (\<lambda>s. Some \<lparr>url_base = s, searchParams = [], url_hash = []\<rparr>),
      env_href = (\<lambda>u. url_base u @ concat (map (\<lambda>(k, v). ''&'' @ k @ ''='' @ v) (searchParams u))),
      env_numToString = (\<lambda>_. ''0'')\<rparr>"


abbreviation sampleFrame :: FrameState where
  "sampleFrame \<equiv> \<lparr>frame_size = (256, 256), pixelRatio = 1, layerStatesArray = []\<rparr>"

abbreviation sampleLayer :: "string \<Rightarrow> Layer" where
  "sampleLayer ty \<equiv>
     \<lparr>spec_type = ty, spec_url = ''http://example.org/wfs'', spec_layer = ''roads'',
      spec_opacity = Some (1 / 2), spec_tiled = False, spec_version = None,
      spec_format = None, spec_projection = ''EPSG:3857'', spec_tileGrid = None,
      spec_matrixSet = None, spec_style = None, spec_requestEncoding = None\<rparr>"

abbreviation sampleScaleBar :: "string \<Rightarrow> ScaleBarSpec" where
  "sampleScaleBar u \<equiv> \<lparr>template = None, position = None, units = Some u\<rparr>"


section \<open>Properties of the scale bar\<close>

subsection \<open>The search loop\<close>

lemma scaleSearch_exit:
  "minWidth \<le> js_round (LEADING_DIGITS ! nat (js_rem (js_rem i 3 + 3) 3) * pow10 (i div 3) / p)
   \<Longrightarrow> scaleSearch p i = Some (js_round (LEADING_DIGITS ! nat (js_rem (js_rem i 3 + 3) 3) * pow10 (i div 3) / p),
        LEADING_DIGITS ! nat (js_rem (js_rem i 3 + 3) 3) * pow10 (i div 3))"
  by (subst scaleSearch.simps) (simp add: Let_def)

lemma scaleSearch_step:
  "\<not> minWidth \<le> js_round (LEADING_DIGITS ! nat (js_rem (js_rem i 3 + 3) 3) * pow10 (i div 3) / p)
   \<Longrightarrow> scaleSearch p i = scaleSearch p (i + 1)"
  by (subst scaleSearch.simps) (simp add: Let_def)

lemma digits10_upper: "n < 10 ^ Suc (digits10 n)"
proof (induction n rule: digits10.induct)
  case (1 n)
  show ?case
  proof (cases "n < 10")
    case True
    then show ?thesis by (subst digits10.simps) simp
  next
    case False
    with 1 have "n div 10 < 10 ^ Suc (digits10 (n div 10))" by simp
    then have "n < 10 * 10 ^ Suc (digits10 (n div 10))" by linarith
    with False show ?thesis by (subst digits10.simps) simp
  qed
qed

lemma digits10_lower: "0 < n \<Longrightarrow> 10 ^ digits10 n \<le> n"
proof (induction n rule: digits10.induct)
  case (1 n)
  show ?case
  proof (cases "n < 10")
    case True
    with 1 show ?thesis by (subst digits10.simps) simp
  next
    case False
    with 1 have "10 ^ digits10 (n div 10) \<le> n div 10" by simp
    then have "10 * 10 ^ digits10 (n div 10) \<le> n" by linarith
    with False show ?thesis by (subst digits10.simps) simp
  qed
qed

lemma digits10_upper_real: "real n + 1 \<le> 10 ^ Suc (digits10 n)"
proof -
  have "n < 10 ^ Suc (digits10 n)" by (rule digits10_upper)
  then have "Suc n \<le> 10 ^ Suc (digits10 n)" by simp
  then have "real (Suc n) \<le> real (10 ^ Suc (digits10 n))" by (simp only: of_nat_le_iff)
  then show ?thesis by simp
qed

lemma digits10_lower_real: "0 < n \<Longrightarrow> 10 ^ digits10 n \<le> real n"
proof -
  assume "0 < n"
  then have "10 ^ digits10 n \<le> n" by (rule digits10_lower)
  then have "real (10 ^ digits10 n) \<le> real n" by (simp only: of_nat_le_iff)
  then show ?thesis by simp
qed

lemma floor_log10_upper:
  assumes "0 < x"
  shows "x < pow10 (floor_log10 x + 1)"
proof (cases "1 \<le> x")
  case True
  let ?n = "nat \<lfloor>x\<rfloor>"
  have "x < real ?n + 1" using True by linarith
  moreover have "real ?n + 1 \<le> 10 ^ Suc (digits10 ?n)"
    by (rule digits10_upper_real)
  ultimately have "x < 10 ^ Suc (digits10 ?n)" by linarith
  then show ?thesis using True
    by (simp add: floor_log10_def pow10_def nat_add_distrib)
next
  case False
  let ?m = "nat (\<lceil>1 / x\<rceil> - 1)"
  from False assms have gt: "1 < 1 / x" by simp
  then have m1: "0 < ?m" by linarith
  have "real ?m < 1 / x" using gt by linarith
  moreover have "10 ^ digits10 ?m \<le> real ?m"
    using m1 by (rule digits10_lower_real)
  ultimately have "10 ^ digits10 ?m < 1 / x" by linarith
  then have "x < 1 / 10 ^ digits10 ?m"
    using assms by (simp add: field_simps)
  then show ?thesis using False
    by (simp add: floor_log10_def pow10_def)
qed

text \<open>
  \<open>floor_log10\<close> is the floor of the logarithm to base 10, which is what
  \<open>Math.floor(Math.log(x) / Math.log(10))\<close> computes in exact arithmetic.
\<close>

lemma floor_log10_lower:
  assumes "0 < x"
  shows "pow10 (floor_log10 x) \<le> x"
proof (cases "1 \<le> x")
  case True
  let ?n = "nat \<lfloor>x\<rfloor>"
  from True have n: "0 < ?n" by linarith
  have "real ?n \<le> x" using True by linarith
  moreover have "10 ^ digits10 ?n \<le> real ?n"
    using n by (rule digits10_lower_real)
  ultimately have "10 ^ digits10 ?n \<le> x" by linarith
  then show ?thesis using True by (simp add: floor_log10_def pow10_def)
next
  case False
  let ?m = "nat (\<lceil>1 / x\<rceil> - 1)"
  from False assms have gt: "1 < 1 / x" by simp
  have "1 / x \<le> real ?m + 1" using gt by linarith
  moreover have "real ?m + 1 \<le> 10 ^ Suc (digits10 ?m)"
    by (rule digits10_upper_real)
  ultimately have "1 / x \<le> 10 ^ Suc (digits10 ?m)" by linarith
  then have "1 / 10 ^ Suc (digits10 ?m) \<le> x"
    using assms by (simp add: field_simps)
  moreover have "pow10 (- int (Suc (digits10 ?m))) = 1 / 10 ^ Suc (digits10 ?m)"
    unfolding pow10_def by (simp del: of_nat_Suc power_Suc)
  moreover have "floor_log10 x = - int (Suc (digits10 ?m))"
    using False unfolding floor_log10_def by (simp del: of_nat_Suc)
  ultimately show ?thesis by (simp del: of_nat_Suc power_Suc)
qed


lemma pow10_powr: "pow10 k = 10 powr real_of_int k"
proof (cases "0 \<le> k")
  case True
  then show ?thesis by (simp add: pow10_def powr_realpow [symmetric])
next
  case False
  then have "10 powr real_of_int k = 10 powr - real (nat (- k))" by simp
  also have "\<dots> = 1 / 10 ^ nat (- k)"
    by (simp add: powr_minus powr_realpow divide_inverse del: of_nat_nat)
  finally show ?thesis using False by (simp add: pow10_def)
qed

lemma floor_log10_eq:
  assumes "0 < x"
  shows "floor_log10 x = \<lfloor>log 10 x\<rfloor>"
proof -
  let ?k = "floor_log10 x"
  have "10 powr real_of_int ?k \<le> x"
    using floor_log10_lower [OF assms] by (simp add: pow10_powr)
  then have lo: "real_of_int ?k \<le> log 10 x"
    using assms by (simp add: le_log_iff)
  have "x < 10 powr real_of_int (?k + 1)"
    using floor_log10_upper [OF assms] by (simp only: pow10_powr)
  then have hi: "log 10 x < real_of_int ?k + 1"
    using assms by (simp add: log_less_iff)
  from lo hi show ?thesis by linarith
qed

lemma js_round_ge: "of_int k \<le> x \<Longrightarrow> of_int k \<le> js_round x"
  unfolding js_round_def by (simp add: le_floor_iff)

lemma scaleSearch_total:
  assumes "0 < p"
  shows "\<exists>w c. scaleSearch p (3 * floor_log10 (minWidth * p)) = Some (w, c)"
proof -
  define k where "k = floor_log10 (minWidth * p)"
  let ?exit = "\<lambda>i. minWidth \<le> js_round (LEADING_DIGITS ! nat (js_rem (js_rem i 3 + 3) 3) * pow10 (i div 3) / p)"
  have "minWidth * p < pow10 (k + 1)"
    unfolding k_def using assms by (intro floor_log10_upper) (simp add: minWidth_def)
  then have "64 \<le> pow10 (k + 1) / p"
    using assms by (simp add: minWidth_def field_simps)
  then have "of_int 64 \<le> js_round (pow10 (k + 1) / p)"
    by (intro js_round_ge) simp
  moreover have "js_rem (js_rem (3 * k + 3) 3 + 3) 3 = 0" "(3 * k + 3) div 3 = k + 1"
    by (simp_all add: js_rem_def)
  ultimately have e3: "?exit (3 * k + 3)"
    by (simp add: minWidth_def LEADING_DIGITS_def)
  have s3: "\<exists>w c. scaleSearch p (3 * k + 3) = Some (w, c)"
    using scaleSearch_exit [OF e3] by blast
  have s2: "\<exists>w c. scaleSearch p (3 * k + 2) = Some (w, c)"
  proof (cases "?exit (3 * k + 2)")
    case True
    then show ?thesis using scaleSearch_exit [of "3 * k + 2" p] by blast
  next
    case False
    then show ?thesis using scaleSearch_step [of "3 * k + 2" p] s3 by (simp add: add.assoc)
  qed
  have s1: "\<exists>w c. scaleSearch p (3 * k + 1) = Some (w, c)"
  proof (cases "?exit (3 * k + 1)")
    case True
    then show ?thesis using scaleSearch_exit [of "3 * k + 1" p] by blast
  next
    case False
    then show ?thesis using scaleSearch_step [of "3 * k + 1" p] s2 by (simp add: add.assoc)
  qed
  show ?thesis
  proof (cases "?exit (3 * k)")
    case True
    then show ?thesis unfolding k_def [symmetric] using scaleSearch_exit [of "3 * k" p] by blast
  next
    case False
    then show ?thesis unfolding k_def [symmetric] using scaleSearch_step [of "3 * k" p] s1 by simp
  qed
qed

lemma scaleSearch_result:
  assumes "scaleSearch p i = Some r"
  shows "minWidth \<le> fst r \<and> fst r = js_round (snd r / p)"
proof (rule scaleSearch.raw_induct
    [where P = "\<lambda>p i r. minWidth \<le> fst r \<and> fst r = js_round (snd r / p)", OF _ assms])
  fix f p i r
  assume IH: "\<And>p i r. f p i = Some r \<Longrightarrow> minWidth \<le> fst r \<and> fst r = js_round (snd r / p)"
    and eq: "(let decimalCount = i div 3;
          decimal = pow10 decimalCount;
          count = LEADING_DIGITS ! nat (js_rem (js_rem i 3 + 3) 3) * decimal;
          w = js_round (count / p)
      in if minWidth \<le> w then Some (w, count)
         else f p (i + 1)) = Some r"
  show "minWidth \<le> fst r \<and> fst r = js_round (snd r / p)"
  proof (cases "minWidth \<le> js_round (LEADING_DIGITS ! nat (js_rem (js_rem i 3 + 3) 3)
                  * pow10 (i div 3) / p)")
    case True
    with eq show ?thesis by (auto simp: Let_def)
  next
    case False
    with eq have "f p (i + 1) = Some r" by (simp add: Let_def)
    then show ?thesis by (rule IH)
  qed
qed


lemma floor_log10_64: "floor_log10 64 = 1"
  by (simp add: floor_log10_def digits10.simps)

lemma scaleSearch_one: "scaleSearch 1 3 = Some (100, 100)"
proof -
  have "scaleSearch 1 3 = scaleSearch 1 4"
    using scaleSearch_step [of 3 1]
    by (simp add: js_rem_def pow10_def js_round_def minWidth_def LEADING_DIGITS_def)
  also have "\<dots> = scaleSearch 1 5"
    using scaleSearch_step [of 4 1]
    by (simp add: js_rem_def pow10_def js_round_def minWidth_def LEADING_DIGITS_def)
  also have "\<dots> = scaleSearch 1 6"
    using scaleSearch_step [of 5 1]
    by (simp add: js_rem_def pow10_def js_round_def minWidth_def LEADING_DIGITS_def)
  also have "\<dots> = Some (100, 100)"
    using scaleSearch_exit [of 6 1]
    by (simp add: js_rem_def pow10_def js_round_def minWidth_def LEADING_DIGITS_def)
  finally show ?thesis .
qed


lemma pow10_small: "n \<le> 1 \<Longrightarrow> pow10 n \<le> 10"
proof -
  assume "n \<le> 1"
  then consider "n = 1" | "n = 0" | "n < 0" by linarith
  then show ?thesis
  proof cases
    case 3
    have "(1::real) \<le> 10 ^ nat (- n)" by simp
    then have "1 / 10 ^ nat (- n) \<le> (1::real)" by simp
    then have "1 / 10 ^ nat (- n) \<le> (10::real)" by linarith
    with 3 show ?thesis by (simp add: pow10_def)
  qed (simp_all add: pow10_def)
qed

lemma pow10_large: "2 \<le> n \<Longrightarrow> 100 \<le> pow10 n"
proof -
  assume n: "2 \<le> n"
  then have "2 \<le> nat n" by simp
  then have "(10::real) ^ 2 \<le> 10 ^ nat n" by (intro power_increasing) simp_all
  with n show ?thesis by (simp add: pow10_def)
qed

lemma round_number_minimal:
  assumes "d \<in> set LEADING_DIGITS" and "minWidth \<le> js_round (d * pow10 n / 1)"
  shows "100 \<le> d * pow10 n"
proof (cases "n \<le> 1")
  case True
  from assms(1) have d: "0 < d" "d \<le> 5" by (auto simp: LEADING_DIGITS_def)
  have "pow10 n \<le> 10" using True by (rule pow10_small)
  moreover have "0 \<le> pow10 n" by (simp add: pow10_def)
  ultimately have "d * pow10 n \<le> 5 * 10" using d by (intro mult_mono) simp_all
  then have "\<lfloor>d * pow10 n + 1 / 2\<rfloor> \<le> 50" by linarith
  then have "js_round (d * pow10 n / 1) \<le> 50" by (simp add: js_round_def)
  with assms(2) show ?thesis by (simp add: minWidth_def)
next
  case False
  then have "100 \<le> pow10 n" by (intro pow10_large) simp
  moreover from assms(1) have "1 \<le> d" by (auto simp: LEADING_DIGITS_def)
  ultimately have "1 * 100 \<le> d * pow10 n" by (intro mult_mono) simp_all
  then show ?thesis by simp
qed

subsection \<open>Metric units at a point resolution of one\<close>

text \<open>
  C1. With metric units (given, or by default) and a point resolution of 1 ground unit
  per pixel, \<open>getScaleBarParams\<close> logs nothing and returns \<open>scalenumber = 100\<close>,
  \<open>width = 100\<close>, \<open>suffix = "m"\<close>. The value 100 is \<open>1 * 10^2\<close>, its rounded pixel width
  reaches the minimum width of 64, and every value \<open>d * 10^n\<close> with \<open>d\<close> one of 1, 2, 5
  and \<open>n\<close> an integer whose rounded pixel width reaches 64 is at least 100.
\<close>

theorem getScaleBarParams_metric_unit_resolution:
  assumes "units sb = Some ''metric'' \<or> units sb = None"
    and "pointResolutionIn ''m'' = 1"
  shows "getScaleBarParams metersPerDegree pointResolutionIn sb
           = ([], Some (Some \<lparr>width = 100, scalenumber = 100, suffix = ''m''\<rparr>))
       \<and> 1 \<in> set LEADING_DIGITS \<and> 1 * pow10 2 = 100
       \<and> minWidth \<le> js_round (100 / pointResolutionIn ''m'')
       \<and> (\<forall>d \<in> set LEADING_DIGITS. \<forall>n.
             minWidth \<le> js_round (d * pow10 n / pointResolutionIn ''m'') \<longrightarrow> 100 \<le> d * pow10 n)"
proof -
  have "getScaleBarParams metersPerDegree pointResolutionIn sb
           = ([], Some (Some \<lparr>width = 100, scalenumber = 100, suffix = ''m''\<rparr>))"
    using assms
    by (auto simp: getScaleBarParams_def unitLadder_def minWidth_def floor_log10_64
        scaleSearch_one)
  moreover have "1 \<in> set LEADING_DIGITS" by (simp add: LEADING_DIGITS_def)
  moreover have "1 * pow10 2 = 100" by (simp add: pow10_def)
  moreover have "minWidth \<le> js_round (100 / pointResolutionIn ''m'')"
    using assms(2) by (simp add: minWidth_def js_round_def)
  moreover have "\<forall>d \<in> set LEADING_DIGITS. \<forall>n.
             minWidth \<le> js_round (d * pow10 n / pointResolutionIn ''m'') \<longrightarrow> 100 \<le> d * pow10 n"
    using round_number_minimal assms(2) by simp
  ultimately show ?thesis by blast
qed

theorem getScaleBarParams_metric_unit_resolution_witness:
  "units (sampleScaleBar ''metric'') = Some ''metric''
   \<and> (\<lambda>_. 1 :: real) ''m'' = 1
   \<and> getScaleBarParams 111319 (\<lambda>_. 1) (sampleScaleBar ''metric'')
       = ([], Some (Some \<lparr>width = 100, scalenumber = 100, suffix = ''m''\<rparr>))
   \<and> 2 \<in> set LEADING_DIGITS
   \<and> minWidth \<le> js_round (2 * pow10 2 / 1)
   \<and> (100 :: real) \<le> 2 * pow10 2"
  using getScaleBarParams_metric_unit_resolution
    [of "sampleScaleBar ''metric''" "\<lambda>_. 1" 111319]
  by (simp add: LEADING_DIGITS_def minWidth_def js_round_def pow10_def)


subsection \<open>Units that are not known\<close>

lemma unitLadder_unknown:
  assumes "u \<notin> {''metric'', ''degrees'', ''imperial'', ''nautical'', ''us''}"
  shows "unitLadder m u p = ('''', p, [invalidUnitsMessage])"
  using assms by (simp add: unitLadder_def)

lemma renderScaleBar_draws:
  "\<exists>ops. renderScaleBar measureText numToString canvasHeight frameWidth (Some params) sb = Inr ops
         \<and> ops \<noteq> []"
  by (simp add: renderScaleBar_def Let_def)

text \<open>
  C6 as stated does not hold: with the units \<open>furlong\<close> and a point resolution of
  1, the error is logged and the scale bar is drawn all the same, 100 pixels wide and
  labelled \<open>100\<close> with an empty suffix (text measured as 0 wide, on a canvas 600 high).
\<close>

theorem printScaleBar_unknown_units_counterexample:
  "printScaleBar 111319 (\<lambda>_. 1) (\<lambda>_. 0) (\<lambda>_. ''100'') 600 800
     (sampleScaleBar ''furlong'')
   = Some ([''Invalid units: Please verify your scaleBar object''],
   Inr [Save, GlobalAlpha (4 / 5), BeginPath, TextAlign ''left'',
        StrokeStyle ''#ffffff'', FillStyle ''#000000'', LineWidth 5,
        Font ''12px Arial'', StrokeText ''100 '' 115 596,
        FillText ''100 '' 115 596, BeginPath, LineWidth 8,
        StrokeStyle ''#000000'', MoveTo 10 590, LineTo 111 590, Stroke,
        BeginPath, LineWidth 6, StrokeStyle ''#000000'', MoveTo 10 590,
        LineTo 35 590, Stroke, BeginPath, LineWidth 6,
        StrokeStyle ''#FFFFFF'', MoveTo 35 590, LineTo 60 590, Stroke,
        BeginPath, LineWidth 6, StrokeStyle ''#000000'', MoveTo 60 590,
        LineTo 85 590, Stroke, BeginPath, LineWidth 6,
        StrokeStyle ''#FFFFFF'', MoveTo 85 590, LineTo 110 590, Stroke,
        Restore])"
  by (simp add: printScaleBar_def getScaleBarParams_def unitLadder_def minWidth_def
      floor_log10_64 scaleSearch_one renderScaleBar_def invalidUnitsMessage_def Let_def)

text \<open>
  C6, amended. For units that are a non-empty string other than \<open>metric\<close>, \<open>degrees\<close>,
  \<open>imperial\<close>, \<open>nautical\<close> and \<open>us\<close>, and a positive point resolution,
  \<open>getScaleBarParams\<close> logs the configuration error and goes on: it returns parameters
  with an empty suffix, computed from the point resolution as it is, with a width of at
  least 64 that is the rounded quotient of the scale number and the point resolution;
  \<open>printScaleBar\<close> draws the scale bar with them.
\<close>

theorem printScaleBar_unknown_units:
  assumes "units sb = Some u" and "u \<noteq> []"
    and "u \<notin> {''metric'', ''degrees'', ''imperial'', ''nautical'', ''us''}"
    and "0 < pointResolutionIn ''m''"
  shows "\<exists>w c ops.
           getScaleBarParams metersPerDegree pointResolutionIn sb
             = ([invalidUnitsMessage],
                Some (Some \<lparr>width = w, scalenumber = c, suffix = ''''\<rparr>))
         \<and> minWidth \<le> w \<and> w = js_round (c / pointResolutionIn ''m'')
         \<and> printScaleBar metersPerDegree pointResolutionIn measureText numToString
               canvasHeight frameWidth sb
             = Some ([invalidUnitsMessage], Inr ops)
         \<and> renderScaleBar measureText numToString canvasHeight frameWidth
               (Some \<lparr>width = w, scalenumber = c, suffix = ''''\<rparr>) sb = Inr ops
         \<and> ops \<noteq> []"
proof -
  let ?p = "pointResolutionIn ''m''"
  from assms(3) have nd: "u \<noteq> ''degrees''" by simp
  obtain w c where sc: "scaleSearch ?p (3 * floor_log10 (minWidth * ?p)) = Some (w, c)"
    using scaleSearch_total [OF assms(4)] by blast
  from scaleSearch_result [OF sc]
  have w: "minWidth \<le> w" "w = js_round (c / ?p)" by simp_all
  have pos: "\<not> minWidth * ?p \<le> 0" using assms(4) by (simp add: minWidth_def)
  have g: "getScaleBarParams metersPerDegree pointResolutionIn sb
             = ([invalidUnitsMessage],
                Some (Some \<lparr>width = w, scalenumber = c, suffix = ''''\<rparr>))"
    using assms(1,2) nd pos sc
    by (simp add: getScaleBarParams_def unitLadder_unknown [OF assms(3)])
  obtain ops where r: "renderScaleBar measureText numToString canvasHeight frameWidth
               (Some \<lparr>width = w, scalenumber = c, suffix = ''''\<rparr>) sb = Inr ops" "ops \<noteq> []"
    using renderScaleBar_draws by blast
  have "printScaleBar metersPerDegree pointResolutionIn measureText numToString
               canvasHeight frameWidth sb = Some ([invalidUnitsMessage], Inr ops)"
    by (simp add: printScaleBar_def g r)
  with g w r show ?thesis by blast
qed

theorem printScaleBar_unknown_units_witness:
  "units (sampleScaleBar ''furlong'') = Some ''furlong''
   \<and> ''furlong'' \<noteq> []
   \<and> ''furlong'' \<notin> {''metric'', ''degrees'', ''imperial'', ''nautical'', ''us''}
   \<and> (0 :: real) < (\<lambda>_. 1) ''m''
   \<and> (\<exists>w c ops.
         getScaleBarParams 111319 (\<lambda>_. 1)
             (sampleScaleBar ''furlong'')
             = ([invalidUnitsMessage],
                Some (Some \<lparr>width = w, scalenumber = c, suffix = ''''\<rparr>))
         \<and> minWidth \<le> w
         \<and> printScaleBar 111319 (\<lambda>_. 1) (\<lambda>_. 0) (\<lambda>_. ''100'') 600 800
               (sampleScaleBar ''furlong'')
             = Some ([invalidUnitsMessage], Inr ops)
         \<and> ops \<noteq> [])"
  using printScaleBar_unknown_units
    [of "(sampleScaleBar ''furlong'')" "''furlong''"
        "\<lambda>_. 1" 111319 "\<lambda>_. 0" "\<lambda>_. ''100''" 600 800]
  by simp blast

section \<open>Properties of the WFS request URL\<close>

lemma map_of_filter_other:
  "k' \<noteq> name \<Longrightarrow> map_of (filter (\<lambda>(a, _). a \<noteq> name) ps) k' = map_of ps k'"
  by (induction ps) auto

lemma searchParams_get_set:
  "searchParams_get (searchParams_set name v ps) k
     = (if k = name then Some v else searchParams_get ps k)"
  by (induction ps) (auto simp: searchParams_get_def map_of_filter_other)

lemma setGetFeatureParams_fields:
  "url_base (setGetFeatureParams toStr ver lname fmt code ext u) = url_base u"
  "url_hash (setGetFeatureParams toStr ver lname fmt code ext u) = url_hash u"
  by (simp_all add: setGetFeatureParams_def Let_def)

lemma setGetFeatureParams_get:
  "searchParams_get (searchParams (setGetFeatureParams toStr ver lname fmt code ext u)) k =
     (if k = ''outputFormat'' \<and> fmt = Some ''geojson'' then Some ''application/json''
      else if k = ''bbox'' then Some (join_comma (map toStr ext) @ '','' @ code)
      else if k = ''srsName'' then Some code
      else if k = (if ver = ''2.0.0'' then ''typenames'' else ''typename'') then Some lname
      else if k = ''request'' then Some ''GetFeature''
      else if k = ''version'' then Some ver
      else if k = ''SERVICE'' then Some ''WFS''
      else searchParams_get (searchParams u) k)"
  by (simp add: setGetFeatureParams_def Let_def searchParams_get_set)

text \<open>
  C4 as stated does not hold: for the version \<open>2.0.2\<close> the layer name is set under
  \<open>typename\<close>, and the URL has no \<open>typenames\<close>. The base URL has no query of its own,
  and the serialiser lists the pairs after it.
\<close>

theorem generateGetFeatureUrl_version_counterexample:
  "generateGetFeatureUrl (env_parseURL sampleEnv) (env_href sampleEnv) (\<lambda>_. ''0'')
     ''http://example.org/wfs'' ''2.0.2'' ''roads'' None ''EPSG:3857'' [0, 0, 0, 0]
   = Inr (''http://example.org/wfs&SERVICE=WFS&version=2.0.2&request=GetFeature''
          @ ''&typename=roads&srsName=EPSG:3857&bbox=0,0,0,0,EPSG:3857'')
   \<and> searchParams
       (setGetFeatureParams (\<lambda>_. ''0'') ''2.0.2'' ''roads'' None ''EPSG:3857'' [0, 0, 0, 0]
          \<lparr>url_base = ''http://example.org/wfs'', searchParams = [], url_hash = []\<rparr>)
     = [(''SERVICE'', ''WFS''), (''version'', ''2.0.2''), (''request'', ''GetFeature''),
        (''typename'', ''roads''), (''srsName'', ''EPSG:3857''),
        (''bbox'', ''0,0,0,0,EPSG:3857'')]"
  by (simp add: generateGetFeatureUrl_def setGetFeatureParams_def Let_def)

text \<open>
  C4, amended. For a base URL that starts with \<open>http\<close> and that the platform parses,
  \<open>generateGetFeatureUrl\<close> returns the serialised URL with the same part before the
  query and the same fragment, whose query has \<open>SERVICE=WFS\<close>, \<open>version\<close> the given
  version, \<open>request=GetFeature\<close>, \<open>srsName\<close> the projection code and \<open>bbox\<close> the
  numbers of the extent and the projection code, joined by commas. \<open>outputFormat\<close> is
  \<open>application/json\<close> when the format is \<open>geojson\<close>, and otherwise what the base URL
  had, if anything. The layer name is under \<open>typenames\<close> exactly when the version is the
  string \<open>2.0.0\<close>, and under \<open>typename\<close> for every other version; the other of the two
  keys is as the base URL had it.
\<close>

theorem generateGetFeatureUrl_query:
  assumes "take 4 baseUrl = ''http''" and "parseURL baseUrl = Some urlObj"
  shows "\<exists>u. generateGetFeatureUrl parseURL href toStr baseUrl wfsVersion layerName fmt
               projCode ext = Inr (href u)
     \<and> url_base u = url_base urlObj \<and> url_hash u = url_hash urlObj
     \<and> searchParams_get (searchParams u) ''SERVICE'' = Some ''WFS''
     \<and> searchParams_get (searchParams u) ''version'' = Some wfsVersion
     \<and> searchParams_get (searchParams u) ''request'' = Some ''GetFeature''
     \<and> searchParams_get (searchParams u) ''srsName'' = Some projCode
     \<and> searchParams_get (searchParams u) ''bbox''
           = Some (join_comma (map toStr ext) @ '','' @ projCode)
     \<and> searchParams_get (searchParams u) ''outputFormat''
           = (if fmt = Some ''geojson'' then Some ''application/json''
              else searchParams_get (searchParams urlObj) ''outputFormat'')
     \<and> searchParams_get (searchParams u) ''typenames''
           = (if wfsVersion = ''2.0.0'' then Some layerName
              else searchParams_get (searchParams urlObj) ''typenames'')
     \<and> searchParams_get (searchParams u) ''typename''
           = (if wfsVersion = ''2.0.0'' then searchParams_get (searchParams urlObj) ''typename''
              else Some layerName)"
proof -
  let ?u = "setGetFeatureParams toStr wfsVersion layerName fmt projCode ext urlObj"
  have "generateGetFeatureUrl parseURL href toStr baseUrl wfsVersion layerName fmt
               projCode ext = Inr (href ?u)"
    using assms by (simp add: generateGetFeatureUrl_def)
  then show ?thesis
    by (intro exI [of _ ?u]) (simp add: setGetFeatureParams_get setGetFeatureParams_fields)
qed

theorem generateGetFeatureUrl_query_witness:
  "take 4 ''http://example.org/wfs'' = ''http''
   \<and> env_parseURL sampleEnv ''http://example.org/wfs''
       = Some \<lparr>url_base = ''http://example.org/wfs'', searchParams = [], url_hash = []\<rparr>
   \<and> (\<exists>u. generateGetFeatureUrl (env_parseURL sampleEnv) (env_href sampleEnv) (\<lambda>_. ''0'')
               ''http://example.org/wfs'' ''2.0.0'' ''roads'' (Some ''geojson'') ''EPSG:3857''
               [0, 0, 0, 0] = Inr (env_href sampleEnv u)
          \<and> searchParams_get (searchParams u) ''SERVICE'' = Some ''WFS''
          \<and> searchParams_get (searchParams u) ''version'' = Some ''2.0.0''
          \<and> searchParams_get (searchParams u) ''request'' = Some ''GetFeature''
          \<and> searchParams_get (searchParams u) ''srsName'' = Some ''EPSG:3857''
          \<and> searchParams_get (searchParams u) ''bbox'' = Some ''0,0,0,0,EPSG:3857''
          \<and> searchParams_get (searchParams u) ''outputFormat'' = Some ''application/json''
          \<and> searchParams_get (searchParams u) ''typenames'' = Some ''roads''
          \<and> searchParams_get (searchParams u) ''typename'' = None)"
  using generateGetFeatureUrl_query
    [of "''http://example.org/wfs''" "env_parseURL sampleEnv"
        "\<lparr>url_base = ''http://example.org/wfs'', searchParams = [], url_hash = []\<rparr>"
        "env_href sampleEnv" "\<lambda>_. ''0''" "''2.0.0''" "''roads''" "Some ''geojson''"
        "''EPSG:3857''" "[0, 0, 0, 0]"]
  by (simp add: searchParams_get_def) blast

text \<open>
  C9 as stated does not hold for a layer whose URL does not start with \<open>http\<close>: the
  version is \<open>1.1.0\<close>, but \<open>generateGetFeatureUrl\<close> returns the URL as it is, and the
  request has neither \<open>version\<close> nor \<open>typename\<close>.
\<close>

theorem createLayerWFS_default_version_counterexample:
  "generateGetFeatureUrl (env_parseURL sampleEnv) (env_href sampleEnv)
     (env_numToString sampleEnv) ''features.json'' ''1.1.0'' ''roads'' None ''EPSG:3857''
     [0, 0, 0, 0] = Inr ''features.json''
   \<and> createLayer sampleEnv ((sampleLayer ''WFS'')\<lparr>spec_url := ''features.json''\<rparr>) sampleFrame
     = Inr (Some (Vector
         \<lparr>vector_layer = VectorLayer (VectorSource (WFS ''1.1.0'') ''features.json''),
          vector_frameState =
            \<lparr>frame_size = (256, 256), pixelRatio = 1,
             layerStatesArray =
               [\<lparr>layer = VectorLayer (VectorSource (WFS ''1.1.0'') ''features.json''),
                 managed = True, maxResolution = None, maxZoom = None,
                 minResolution = 0, minZoom = None, opacity = 1,
                 sourceState = ''ready'', visible = True, zIndex = 0\<rparr>]\<rparr>,
          vector_canvas = \<lparr>canvas_width = 256, canvas_height = 256, framesRendered = 0\<rparr>,
          vector_progress =
            \<lparr>emitted = [\<lparr>progress = Num 0, surface = None, loadErrorUrl = None\<rparr>],
             completed = False\<rparr>,
          vector_url = ''features.json''\<rparr>))"
  by (simp add: createLayer_def createLayerWFS_def generateGetFeatureUrl_def Let_def
      setFrameState_def createCanvasContext2D_def newBehaviorSubject_def)

text \<open>
  C9, amended. A WFS layer whose specification has no \<open>version\<close> gets a task that uses
  the version \<open>1.1.0\<close>: the WFS format (when the format is not \<open>geojson\<close>) is built
  with it, and the request is made for it. When the URL of the layer starts with
  \<open>http\<close> and the platform parses it, the request has \<open>version=1.1.0\<close> and the layer
  name under \<open>typename\<close>, and \<open>typenames\<close> is not set (it is as the base URL had it).
  When the URL does not start with \<open>http\<close>, the request is the URL as it is.
\<close>

theorem createLayerWFS_default_version:
  assumes "spec_type layerSpec = ''WFS''"
    and "spec_version layerSpec = None"
  shows "(take 4 (spec_url layerSpec) = ''http''
          \<and> env_parseURL env (spec_url layerSpec) = Some urlObj \<longrightarrow>
          (\<exists>t u. createLayer env layerSpec rootFrameState = Inr (Some (Vector t))
             \<and> getSource (vector_layer t)
                 = VectorSource (if spec_format layerSpec = Some ''geojson'' then GeoJSON
                                 else WFS ''1.1.0'') (env_href env u)
             \<and> searchParams_get (searchParams u) ''version'' = Some ''1.1.0''
             \<and> searchParams_get (searchParams u) ''typename'' = Some (spec_layer layerSpec)
             \<and> searchParams_get (searchParams u) ''typenames''
                 = searchParams_get (searchParams urlObj) ''typenames''))
       \<and> (take 4 (spec_url layerSpec) \<noteq> ''http'' \<longrightarrow>
          (\<exists>t. createLayer env layerSpec rootFrameState = Inr (Some (Vector t))
             \<and> getSource (vector_layer t)
                 = VectorSource (if spec_format layerSpec = Some ''geojson'' then GeoJSON
                                 else WFS ''1.1.0'') (spec_url layerSpec)))"
proof (intro conjI impI)
  assume h: "take 4 (spec_url layerSpec) = ''http''
          \<and> env_parseURL env (spec_url layerSpec) = Some urlObj"
  let ?u = "setGetFeatureParams (env_numToString env) ''1.1.0'' (spec_layer layerSpec)
              (spec_format layerSpec) (loaderProjCode env) (loaderExtent env) urlObj"
  have "generateGetFeatureUrl (env_parseURL env) (env_href env) (env_numToString env)
          (spec_url layerSpec) ''1.1.0'' (spec_layer layerSpec) (spec_format layerSpec)
          (loaderProjCode env) (loaderExtent env) = Inr (env_href env ?u)"
    using h by (simp add: generateGetFeatureUrl_def)
  then have "\<exists>t. createLayer env layerSpec rootFrameState = Inr (Some (Vector t))
     \<and> getSource (vector_layer t)
         = VectorSource (if spec_format layerSpec = Some ''geojson'' then GeoJSON
                         else WFS ''1.1.0'') (env_href env ?u)"
    using assms by (simp add: createLayer_def createLayerWFS_def Let_def)
  then show "\<exists>t u. createLayer env layerSpec rootFrameState = Inr (Some (Vector t))
             \<and> getSource (vector_layer t)
                 = VectorSource (if spec_format layerSpec = Some ''geojson'' then GeoJSON
                                 else WFS ''1.1.0'') (env_href env u)
             \<and> searchParams_get (searchParams u) ''version'' = Some ''1.1.0''
             \<and> searchParams_get (searchParams u) ''typename'' = Some (spec_layer layerSpec)
             \<and> searchParams_get (searchParams u) ''typenames''
                 = searchParams_get (searchParams urlObj) ''typenames''"
    by (auto simp: setGetFeatureParams_get intro!: exI [of _ ?u])
next
  assume "take 4 (spec_url layerSpec) \<noteq> ''http''"
  then have "generateGetFeatureUrl (env_parseURL env) (env_href env) (env_numToString env)
          (spec_url layerSpec) ''1.1.0'' (spec_layer layerSpec) (spec_format layerSpec)
          (loaderProjCode env) (loaderExtent env) = Inr (spec_url layerSpec)"
    by (simp add: generateGetFeatureUrl_def)
  then show "\<exists>t. createLayer env layerSpec rootFrameState = Inr (Some (Vector t))
             \<and> getSource (vector_layer t)
                 = VectorSource (if spec_format layerSpec = Some ''geojson'' then GeoJSON
                                 else WFS ''1.1.0'') (spec_url layerSpec)"
    using assms by (simp add: createLayer_def createLayerWFS_def Let_def)
qed

theorem createLayerWFS_default_version_witness:
  "spec_type (sampleLayer ''WFS'') = ''WFS''
   \<and> spec_version (sampleLayer ''WFS'') = None
   \<and> take 4 (spec_url (sampleLayer ''WFS'')) = ''http''
   \<and> env_parseURL sampleEnv (spec_url (sampleLayer ''WFS''))
       = Some \<lparr>url_base = ''http://example.org/wfs'', searchParams = [], url_hash = []\<rparr>
   \<and> (\<exists>t u. createLayer sampleEnv (sampleLayer ''WFS'') sampleFrame = Inr (Some (Vector t))
          \<and> getSource (vector_layer t) = VectorSource (WFS ''1.1.0'') (env_href sampleEnv u)
          \<and> searchParams_get (searchParams u) ''version'' = Some ''1.1.0''
          \<and> searchParams_get (searchParams u) ''typename'' = Some ''roads''
          \<and> searchParams_get (searchParams u) ''typenames'' = None)
   \<and> take 4 ''features.json'' \<noteq> ''http''
   \<and> (\<exists>t. createLayer sampleEnv ((sampleLayer ''WFS'')\<lparr>spec_url := ''features.json''\<rparr>)
              sampleFrame = Inr (Some (Vector t))
          \<and> getSource (vector_layer t) = VectorSource (WFS ''1.1.0'') ''features.json'')"
  using createLayerWFS_default_version
    [of "sampleLayer ''WFS''" sampleEnv
        "\<lparr>url_base = ''http://example.org/wfs'', searchParams = [], url_hash = []\<rparr>"
        sampleFrame]
    createLayerWFS_default_version
    [of "(sampleLayer ''WFS'')\<lparr>spec_url := ''features.json''\<rparr>" sampleEnv _ sampleFrame]
  by (simp add: searchParams_get_def)

section \<open>Properties of the creation of layer tasks\<close>

lemma createTiledLayer_source [simp]:
  "getSource (tiled_layer (createTiledLayer env src fs op)) = src"
  by (simp add: createTiledLayer_def Let_def)

lemma createLayerWMTS_grid:
  assumes "spec_tileGrid layerSpec = Some tg"
    and "resolutions tg = Some rs"
    and "matrixIds tg = None"
  shows "createLayerWMTS env layerSpec rootFrameState
      = (case tileGridRejects env \<lparr>grid_resolutions = Some rs,
      grid_extent = (case extent tg of Some e \<Rightarrow> e
                     | None \<Rightarrow> extentFromProjection env (spec_projection layerSpec)),
      grid_matrixIds = map IdNum [0 ..< length rs], grid_tileSize = tileSize tg\<rparr> of
           Some e \<Rightarrow> Inl e
         | None \<Rightarrow> Inr (createTiledLayer env
                     (WMTS layerSpec \<lparr>grid_resolutions = Some rs,
      grid_extent = (case extent tg of Some e \<Rightarrow> e
                     | None \<Rightarrow> extentFromProjection env (spec_projection layerSpec)),
      grid_matrixIds = map IdNum [0 ..< length rs], grid_tileSize = tileSize tg\<rparr> (spec_projection layerSpec))
                     rootFrameState (spec_opacity layerSpec)))"
  using assms by (simp add: createLayerWMTS_def Let_def)

text \<open>
  C7. A WMTS layer whose \<open>tileGrid\<close> has resolutions and no \<open>matrixIds\<close>:
  \<open>new WMTSTileGrid\<close> is called with the resolutions given and the matrix ids
  \<open>0, 1, ..., resolutions.length - 1\<close> (\<open>[0, 1, 2, 3, 4]\<close> for five resolutions); the
  extent it is called with is \<open>extentFromProjection\<close> of the layer's projection when the
  \<open>tileGrid\<close> has no extent, and the extent given otherwise. When the constructor
  accepts these options, the task is created on a WMTS source with that grid; when it
  throws, \<open>createLayer\<close> throws its error and there is no grid.
\<close>

theorem createLayerWMTS_default_matrixIds:
  assumes "spec_type layerSpec = ''WMTS''"
    and "spec_tileGrid layerSpec = Some tg"
    and "resolutions tg = Some rs"
    and "matrixIds tg = None"
  shows "\<exists>grid. grid_resolutions grid = Some rs
     \<and> grid_matrixIds grid = map IdNum [0 ..< length rs]
     \<and> (length rs = 5 \<longrightarrow> grid_matrixIds grid = [IdNum 0, IdNum 1, IdNum 2, IdNum 3, IdNum 4])
     \<and> (extent tg = None \<longrightarrow>
           grid_extent grid = extentFromProjection env (spec_projection layerSpec))
     \<and> (\<forall>e. extent tg = Some e \<longrightarrow> grid_extent grid = e)
     \<and> grid_tileSize grid = tileSize tg
     \<and> (tileGridRejects env grid = None \<longrightarrow>
           (\<exists>t. createLayer env layerSpec rootFrameState = Inr (Some (Tiled t))
              \<and> getSource (tiled_layer t) = WMTS layerSpec grid (spec_projection layerSpec)))
     \<and> (\<forall>err. tileGridRejects env grid = Some err \<longrightarrow>
           createLayer env layerSpec rootFrameState = Inl err)"
proof -
  define grid where "grid =
     \<lparr>grid_resolutions = Some rs,
      grid_extent = (case extent tg of Some e \<Rightarrow> e
                     | None \<Rightarrow> extentFromProjection env (spec_projection layerSpec)),
      grid_matrixIds = map IdNum [0 ..< length rs], grid_tileSize = tileSize tg\<rparr>"
  have five: "[0 ..< 5] = [0, 1, 2, 3, 4::nat]" by (simp add: upt_rec)
  have w: "createLayerWMTS env layerSpec rootFrameState
      = (case tileGridRejects env grid of
           Some e \<Rightarrow> Inl e
         | None \<Rightarrow> Inr (createTiledLayer env
                     (WMTS layerSpec grid (spec_projection layerSpec))
                     rootFrameState (spec_opacity layerSpec)))"
    unfolding grid_def using assms(2-4) by (rule createLayerWMTS_grid)
  have c: "createLayer env layerSpec rootFrameState
      = (case createLayerWMTS env layerSpec rootFrameState of
           Inl e \<Rightarrow> Inl e | Inr t \<Rightarrow> Inr (Some (Tiled t)))"
    using assms(1) by (simp add: createLayer_def)
  have p1: "grid_resolutions grid = Some rs" by (simp add: grid_def)
  have p2: "grid_matrixIds grid = map IdNum [0 ..< length rs]" by (simp add: grid_def)
  have p3: "length rs = 5 \<longrightarrow>
      grid_matrixIds grid = [IdNum 0, IdNum 1, IdNum 2, IdNum 3, IdNum 4]"
    by (simp add: grid_def five)
  have p4: "extent tg = None \<longrightarrow>
      grid_extent grid = extentFromProjection env (spec_projection layerSpec)"
    by (simp add: grid_def)
  have p5: "\<forall>e. extent tg = Some e \<longrightarrow> grid_extent grid = e" by (simp add: grid_def)
  have p6: "grid_tileSize grid = tileSize tg" by (simp add: grid_def)
  have p7: "tileGridRejects env grid = None \<longrightarrow>
           (\<exists>t. createLayer env layerSpec rootFrameState = Inr (Some (Tiled t))
              \<and> getSource (tiled_layer t) = WMTS layerSpec grid (spec_projection layerSpec))"
  proof
    assume "tileGridRejects env grid = None"
    with w have "createLayerWMTS env layerSpec rootFrameState
        = Inr (createTiledLayer env (WMTS layerSpec grid (spec_projection layerSpec))
                 rootFrameState (spec_opacity layerSpec))"
      by simp
    with c show "\<exists>t. createLayer env layerSpec rootFrameState = Inr (Some (Tiled t))
              \<and> getSource (tiled_layer t) = WMTS layerSpec grid (spec_projection layerSpec)"
      by simp
  qed
  have p8: "\<forall>err. tileGridRejects env grid = Some err \<longrightarrow>
           createLayer env layerSpec rootFrameState = Inl err"
  proof (intro allI impI)
    fix err
    assume "tileGridRejects env grid = Some err"
    with w have "createLayerWMTS env layerSpec rootFrameState = Inl err" by simp
    with c show "createLayer env layerSpec rootFrameState = Inl err" by simp
  qed
  from p1 p2 p3 p4 p5 p6 p7 p8 show ?thesis by (intro exI [of _ grid] conjI)
qed


theorem createLayerWMTS_default_matrixIds_witness:
  "(\<exists>t grid.
      createLayer sampleEnv
        ((sampleLayer ''WMTS'')
           \<lparr>spec_tileGrid := Some \<lparr>resolutions = Some [16, 8, 4, 2, 1], extent = None,
                                     matrixIds = None, tileSize = Some 256\<rparr>\<rparr>)
        sampleFrame = Inr (Some (Tiled t))
      \<and> getSource (tiled_layer t)
          = WMTS ((sampleLayer ''WMTS'')
                    \<lparr>spec_tileGrid := Some \<lparr>resolutions = Some [16, 8, 4, 2, 1], extent = None,
                                              matrixIds = None, tileSize = Some 256\<rparr>\<rparr>)
              grid ''EPSG:3857''
      \<and> tileGridRejects sampleEnv grid = None
      \<and> grid_resolutions grid = Some [16, 8, 4, 2, 1]
      \<and> grid_matrixIds grid = [IdNum 0, IdNum 1, IdNum 2, IdNum 3, IdNum 4]
      \<and> grid_extent grid = [0, 0, 1, 1])
   \<and> (\<exists>grid.
      createLayer sampleEnv
        ((sampleLayer ''WMTS'')
           \<lparr>spec_tileGrid := Some \<lparr>resolutions = Some [1, 2, 4, 8, 16],
                                     extent = Some [0, 0, 9, 9],
                                     matrixIds = None, tileSize = Some 256\<rparr>\<rparr>)
        sampleFrame = Inl (AssertionError 17)
      \<and> tileGridRejects sampleEnv grid = Some (AssertionError 17)
      \<and> grid_resolutions grid = Some [1, 2, 4, 8, 16]
      \<and> grid_matrixIds grid = [IdNum 0, IdNum 1, IdNum 2, IdNum 3, IdNum 4]
      \<and> grid_extent grid = [0, 0, 9, 9])"
proof -
  define tg1 :: TileGrid where "tg1 =
    \<lparr>resolutions = Some [16, 8, 4, 2, 1], extent = None, matrixIds = None,
     tileSize = Some 256\<rparr>"
  define tg2 :: TileGrid where "tg2 =
    \<lparr>resolutions = Some [1, 2, 4, 8, 16], extent = Some [0, 0, 9, 9], matrixIds = None,
     tileSize = Some 256\<rparr>"
  define env where "env = sampleEnv"
  define fs where "fs = sampleFrame"
  define l1 where "l1 = (sampleLayer ''WMTS'')\<lparr>spec_tileGrid := Some tg1\<rparr>"
  define l2 where "l2 = (sampleLayer ''WMTS'')\<lparr>spec_tileGrid := Some tg2\<rparr>"
  have five: "[0 ..< 5] = [0, 1, 2, 3, 4::nat]" by (simp add: upt_rec)
  have h1: "spec_type l1 = ''WMTS''" "spec_tileGrid l1 = Some tg1"
    "resolutions tg1 = Some [16, 8, 4, 2, 1]" "matrixIds tg1 = None"
    by (simp_all add: l1_def tg1_def)
  have h2: "spec_type l2 = ''WMTS''" "spec_tileGrid l2 = Some tg2"
    "resolutions tg2 = Some [1, 2, 4, 8, 16]" "matrixIds tg2 = None"
    by (simp_all add: l2_def tg2_def)
  from createLayerWMTS_default_matrixIds [OF h1, of env fs]
  obtain g1 where a1: "grid_resolutions g1 = Some [16, 8, 4, 2, 1]"
    and b1: "grid_matrixIds g1 = map IdNum [0 ..< length [16, 8, 4, 2, 1 :: real]]"
    and c1: "extent tg1 = None \<longrightarrow>
               grid_extent g1 = extentFromProjection env (spec_projection l1)"
    and d1: "tileGridRejects env g1 = None \<longrightarrow>
       (\<exists>t. createLayer env l1 fs = Inr (Some (Tiled t))
          \<and> getSource (tiled_layer t) = WMTS l1 g1 (spec_projection l1))"
    by (elim exE conjE) (rule that, assumption+)
  from createLayerWMTS_default_matrixIds [OF h2, of env fs]
  obtain g2 where a2: "grid_resolutions g2 = Some [1, 2, 4, 8, 16]"
    and b2: "grid_matrixIds g2 = map IdNum [0 ..< length [1, 2, 4, 8, 16 :: real]]"
    and c2: "\<forall>e. extent tg2 = Some e \<longrightarrow> grid_extent g2 = e"
    and d2: "\<forall>err. tileGridRejects env g2 = Some err \<longrightarrow>
       createLayer env l2 fs = Inl err"
    by (elim exE conjE) (rule that, assumption+)
  have r1: "tileGridRejects env g1 = None" by (simp add: a1 env_def)
  have r2: "tileGridRejects env g2 = Some (AssertionError 17)" by (simp add: a2 env_def)
  from d1 r1 obtain t where t: "createLayer env l1 fs = Inr (Some (Tiled t))"
    "getSource (tiled_layer t) = WMTS l1 g1 (spec_projection l1)" by blast
  have e1: "grid_extent g1 = [0, 0, 1, 1]" using c1 by (simp add: tg1_def env_def)
  have e2: "grid_extent g2 = [0, 0, 9, 9]" using c2 by (simp add: tg2_def)
  have i1: "grid_matrixIds g1 = [IdNum 0, IdNum 1, IdNum 2, IdNum 3, IdNum 4]"
    using b1 by (simp add: five)
  have i2: "grid_matrixIds g2 = [IdNum 0, IdNum 1, IdNum 2, IdNum 3, IdNum 4]"
    using b2 by (simp add: five)
  have f2: "createLayer env l2 fs = Inl (AssertionError 17)"
    using d2 r2 by blast
  have p: "spec_projection l1 = ''EPSG:3857''" by (simp add: l1_def)
  from t p r1 a1 i1 e1 have first: "\<exists>t grid.
      createLayer env l1 fs = Inr (Some (Tiled t))
      \<and> getSource (tiled_layer t) = WMTS l1 grid ''EPSG:3857''
      \<and> tileGridRejects env grid = None
      \<and> grid_resolutions grid = Some [16, 8, 4, 2, 1]
      \<and> grid_matrixIds grid = [IdNum 0, IdNum 1, IdNum 2, IdNum 3, IdNum 4]
      \<and> grid_extent grid = [0, 0, 1, 1]"
    by (intro exI [of _ t] exI [of _ g1]) simp
  from f2 r2 a2 i2 e2 have second: "\<exists>grid.
      createLayer env l2 fs = Inl (AssertionError 17)
      \<and> tileGridRejects env grid = Some (AssertionError 17)
      \<and> grid_resolutions grid = Some [1, 2, 4, 8, 16]
      \<and> grid_matrixIds grid = [IdNum 0, IdNum 1, IdNum 2, IdNum 3, IdNum 4]
      \<and> grid_extent grid = [0, 0, 9, 9]"
    by (intro exI [of _ g2]) simp
  from first second show ?thesis unfolding l1_def l2_def tg1_def tg2_def env_def fs_def by (rule conjI)
qed

text \<open>
  C8. The task of a WFS layer renders with a layer state of opacity 1, whatever the
  \<open>opacity\<close> of its specification: \<open>createLayerWFS\<close> gives \<open>setFrameState\<close> no opacity,
  and \<open>setFrameState\<close> then takes 1. The tasks of the raster layers (XYZ, WMS, WMTS)
  render with the \<open>opacity\<close> of the specification (1 when it has none).
\<close>

theorem createLayer_layer_opacity:
  assumes "createLayer env layerSpec rootFrameState = Inr (Some task)"
  shows "(spec_type layerSpec = ''WFS'' \<longrightarrow>
            map opacity (layerStatesArray (taskFrameState task)) = [1])
       \<and> (spec_type layerSpec \<in> {''XYZ'', ''WMS'', ''WMTS''} \<longrightarrow>
            map opacity (layerStatesArray (taskFrameState task))
              = [case spec_opacity layerSpec of Some x \<Rightarrow> x | None \<Rightarrow> 1])"
  using assms
  by (auto simp: createLayer_def createLayerWFS_def createLayerXYZ_def createLayerWMS_def
      createLayerWMTS_def createTiledLayer_def setFrameState_def Let_def
      split: if_splits sum.splits option.splits)

theorem createLayer_layer_opacity_witness:
  "(\<exists>task. createLayer sampleEnv (sampleLayer ''WFS'') sampleFrame = Inr (Some task)
       \<and> spec_opacity (sampleLayer ''WFS'') = Some (1 / 2)
       \<and> map opacity (layerStatesArray (taskFrameState task)) = [1])
   \<and> (\<exists>task. createLayer sampleEnv (sampleLayer ''XYZ'') sampleFrame = Inr (Some task)
       \<and> ''XYZ'' \<in> {''XYZ'', ''WMS'', ''WMTS''}
       \<and> map opacity (layerStatesArray (taskFrameState task)) = [1 / 2])"
proof -
  obtain t1 where t1: "createLayer sampleEnv (sampleLayer ''WFS'') sampleFrame = Inr (Some t1)"
    by (simp add: createLayer_def createLayerWFS_def generateGetFeatureUrl_def Let_def)
  obtain t2 where t2: "createLayer sampleEnv (sampleLayer ''XYZ'') sampleFrame = Inr (Some t2)"
    by (simp add: createLayer_def)
  from createLayer_layer_opacity [OF t1] createLayer_layer_opacity [OF t2] t1 t2
  show ?thesis by simp
qed

text \<open>
  C5 as stated does not hold: for a layer of type \<open>KML\<close>, \<open>createLayer\<close> returns
  undefined. It throws nothing, and there is no call of the console in it.
\<close>

theorem createLayer_unknown_type_counterexample:
  "createLayer sampleEnv (sampleLayer ''KML'') sampleFrame = Inr None"
  by (simp add: createLayer_def)

text \<open>
  C5, amended. For a layer whose type is none of \<open>XYZ\<close>, \<open>WMS\<close>, \<open>WMTS\<close> and \<open>WFS\<close>,
  \<open>createLayer\<close> creates no task and reports nothing: no case of its \<open>switch\<close> applies
  and it returns undefined, without an exception.
\<close>

theorem createLayer_unknown_type:
  assumes "spec_type layerSpec \<notin> {''XYZ'', ''WMS'', ''WMTS'', ''WFS''}"
  shows "createLayer env layerSpec rootFrameState = Inr None"
  using assms by (simp add: createLayer_def)

theorem createLayer_unknown_type_witness:
  "spec_type (sampleLayer ''GeoJSON'') \<notin> {''XYZ'', ''WMS'', ''WMTS'', ''WFS''}
   \<and> createLayer sampleEnv (sampleLayer ''GeoJSON'') sampleFrame = Inr None"
  using createLayer_unknown_type [of "sampleLayer ''GeoJSON''" sampleEnv sampleFrame]
  by simp

section \<open>Properties of tiled layers\<close>

lemma tiledStep_const [simp]:
  "tileCount (tiledStep env t e) = tileCount t"
  "tiled_layer (tiledStep env t e) = tiled_layer t"
  by (cases e; simp add: Let_def split: prod.splits)+

lemma tiledRun_const [simp]:
  "tileCount (tiledRun env t evs) = tileCount t"
  "tiled_layer (tiledRun env t evs) = tiled_layer t"
  by (induction evs arbitrary: t; simp add: tiledRun_def)+

lemma tiledRun_append:
  "tiledRun env t (xs @ ys) = tiledRun env (tiledRun env t xs) ys"
  by (simp add: tiledRun_def)

lemma tiledRun_Cons:
  "tiledRun env t (e # evs) = tiledRun env (tiledStep env t e) evs"
  by (simp add: tiledRun_def)

lemma tiledStatus_progress:
  "progress (fst (tiledStatus t q l))
     = (let raw = js_one_minus (js_div_count q (tileCount t))
        in if raw = Num 1 \<and> 0 < l then js_minus raw (1 / 1000) else raw)"
  by (simp add: tiledStatus_def Let_def)

lemma tiledStatus_surface:
  "surface (fst (tiledStatus t q l))
     = (if progress (fst (tiledStatus t q l)) = Num 1
        then Some (renderFrame (tiled_canvas t)) else None)"
  by (simp add: tiledStatus_def Let_def)

lemma tiledStatus_url:
  "loadErrorUrl (fst (tiledStatus t q l)) = tileLoadErrorUrl t"
  by (simp add: tiledStatus_def Let_def)

lemma tiledStep_emitted:
  "tiled_emitted (tiledStep env t e)
     = (case e of
          Tick q l \<Rightarrow> if tiled_completed t then tiled_emitted t
                      else tiled_emitted t @ [fst (tiledStatus t q l)]
        | TileLoadError \<Rightarrow> tiled_emitted t)"
  by (cases e) (simp_all add: Let_def split: prod.splits)

lemma js_progress_finite:
  "0 < n \<Longrightarrow> js_one_minus (js_div_count q n) = Num (1 - real q / real n)"
  by (simp add: js_div_count_def)

lemma tiledRun_emitted:
  "\<forall>st \<in> set (tiled_emitted (tiledRun env t evs)).
     st \<in> set (tiled_emitted t) \<or>
     (\<exists>q l. Tick q l \<in> set evs
        \<and> progress st = (let raw = js_one_minus (js_div_count q (tileCount t))
                         in if raw = Num 1 \<and> 0 < l then js_minus raw (1 / 1000) else raw)
        \<and> (progress st \<noteq> Num 1 \<longrightarrow> surface st = None))"
proof (induction evs arbitrary: t)
  case Nil
  then show ?case by (simp add: tiledRun_def)
next
  case (Cons e evs)
  show ?case
  proof
    fix st
    assume "st \<in> set (tiled_emitted (tiledRun env t (e # evs)))"
    then have st: "st \<in> set (tiled_emitted (tiledRun env (tiledStep env t e) evs))"
      by (simp add: tiledRun_Cons)
    let ?P = "\<lambda>evs. \<exists>q l. Tick q l \<in> set evs
        \<and> progress st = (let raw = js_one_minus (js_div_count q (tileCount t))
                         in if raw = Num 1 \<and> 0 < l then js_minus raw (1 / 1000) else raw)
        \<and> (progress st \<noteq> Num 1 \<longrightarrow> surface st = None)"
    from Cons.IH [of "tiledStep env t e"] st
    consider "st \<in> set (tiled_emitted (tiledStep env t e))" | "?P evs"
      by auto
    then show "st \<in> set (tiled_emitted t) \<or> ?P (e # evs)"
    proof cases
      case 1
      show ?thesis
      proof (cases e)
        case TileLoadError
        with 1 show ?thesis by (simp add: tiledStep_emitted del: tiledStep.simps)
      next
        case (Tick q l)
        with 1 consider "st \<in> set (tiled_emitted t)" | "st = fst (tiledStatus t q l)"
          by (auto simp: tiledStep_emitted simp del: tiledStep.simps split: if_splits)
        then show ?thesis
        proof cases
          case 1
          then show ?thesis by simp
        next
          case 2
          have "?P (e # evs)"
            unfolding Tick 2
            by (intro exI [of _ q] exI [of _ l])
               (simp add: tiledStatus_progress tiledStatus_surface)
          then show ?thesis by simp
        qed
      qed
    next
      case 2
      then show ?thesis by auto
    qed
  qed
qed

text \<open>
  C3. Every status a tiled layer task emits comes from a tick, and its progress is
  computed from the number \<open>q\<close> of tiles queued at that tick and the number of tiles
  queued by the first \<open>renderFrame\<close>: it is \<open>1 - q / tileCount\<close>, except that when this
  value is exactly 1 while tiles are loading, 0.001 is subtracted from it. (With no tile
  queued at the start the division gives NaN or an infinity; with some, the value is
  the real number \<open>1 - q / tileCount\<close>.) The surface of a status is null whenever its
  progress is not 1.
\<close>

theorem tiled_progress_values:
  fixes env src fs op evs
  defines "t0 \<equiv> createTiledLayer env src fs op"
  shows "tileCount t0 = queuedByFirstRender env src
     \<and> (\<forall>st \<in> set (tiled_emitted (tiledRun env t0 evs)).
          \<exists>q l. Tick q l \<in> set evs
            \<and> progress st
                = (let raw = js_one_minus (js_div_count q (tileCount t0))
                   in if raw = Num 1 \<and> 0 < l then js_minus raw (1 / 1000) else raw)
            \<and> (0 < tileCount t0 \<longrightarrow>
                 js_one_minus (js_div_count q (tileCount t0))
                   = Num (1 - real q / real (tileCount t0)))
            \<and> (progress st \<noteq> Num 1 \<longrightarrow> surface st = None))"
proof -
  have e: "tiled_emitted t0 = []" and c: "tileCount t0 = queuedByFirstRender env src"
    by (simp_all add: t0_def createTiledLayer_def Let_def)
  show ?thesis
    using tiledRun_emitted [of env t0 evs] c
    by (auto simp: e js_progress_finite)
qed

theorem tiled_progress_values_witness:
  "tiled_emitted (tiledRun sampleEnv
       (createTiledLayer sampleEnv (XYZ ''http://example.org/tiles'') sampleFrame None)
       [Tick 1 1, Tick 0 1, Tick 0 0])
     = [\<lparr>progress = Num (1 / 2), surface = None, loadErrorUrl = None\<rparr>,
        \<lparr>progress = Num (999 / 1000), surface = None, loadErrorUrl = None\<rparr>,
        \<lparr>progress = Num 1,
         surface = Some \<lparr>canvas_width = 256, canvas_height = 256, framesRendered = 2\<rparr>,
         loadErrorUrl = None\<rparr>]
   \<and> tileCount (createTiledLayer sampleEnv (XYZ ''http://example.org/tiles'') sampleFrame None)
       = 2
   \<and> js_one_minus (js_div_count 1 2) = Num (1 / 2)
   \<and> js_one_minus (js_div_count 0 2) = Num 1
   \<and> js_minus (js_one_minus (js_div_count 0 2)) (1 / 1000) = Num (999 / 1000)"
  using tiled_progress_values
    [of sampleEnv "XYZ ''http://example.org/tiles''" sampleFrame None
        "[Tick 1 1, Tick 0 1, Tick 0 0]"]
  by (simp add: tiledRun_def createTiledLayer_def tiledStatus_def js_div_count_def Let_def
      createCanvasContext2D_def renderFrame_def)

section \<open>Load failures\<close>

lemma subject_completed_next [simp]:
  "completed s \<Longrightarrow> subject_next v s = s"
  by (simp add: subject_next_def)

lemma subject_complete_idem [simp]:
  "completed s \<Longrightarrow> subject_complete s = s"
  by (simp add: subject_complete_def)
































section \<open>Properties of the \<open>Image\<close> class of the worker\<close>

lemma imageCalls_snoc:
  "imageCalls (cs @ [c]) = imageCall (imageCalls cs) c"
  by (simp add: imageCalls_def)

lemma imageCall_called_subset:
  "set (called (imageCall img c)) \<union> set (loadWaiting (imageCall img c))
     \<subseteq> set (called img) \<union> set (loadWaiting img)
         \<union> (case c of AddEventListener n cb \<Rightarrow> if n = ''load'' then {cb} else {} | _ \<Rightarrow> {})"
  by (cases c)
     (auto simp: hintImageSize_def loadPromise_then_def loadPromiseResolver_def Let_def)

lemma imageCalls_called_load:
  "set (called (imageCalls cs :: 'cb Image)) \<union> set (loadWaiting (imageCalls cs :: 'cb Image))
     \<subseteq> {cb. AddEventListener ''load'' cb \<in> set cs}"
proof (induction cs rule: rev_induct)
  case Nil
  then show ?case by (simp add: imageCalls_def newImage_def hintImageSize_def)
next
  case (snoc c cs)
  have "set (called (imageCalls (cs @ [c]))) \<union> set (loadWaiting (imageCalls (cs @ [c])))
     \<subseteq> set (called (imageCalls cs)) \<union> set (loadWaiting (imageCalls cs))
         \<union> (case c of AddEventListener n cb \<Rightarrow> if n = ''load'' then {cb} else {} | _ \<Rightarrow> {})"
    unfolding imageCalls_snoc by (rule imageCall_called_subset)
  also have "\<dots> \<subseteq> {cb. AddEventListener ''load'' cb \<in> set (cs @ [c])}"
    using snoc.IH by (auto split: image_call.splits if_splits)
  finally show ?case .
qed

lemma imageCall_unresolved:
  assumes "\<not> loadResolved img" and "called img = []"
    and "\<forall>u. c \<noteq> FetchSettled u BitmapReady"
  shows "\<not> loadResolved (imageCall img c) \<and> called (imageCall img c) = []"
  using assms
  by (cases c) (auto simp: hintImageSize_def loadPromise_then_def Let_def)

lemma imageCalls_unresolved:
  assumes "\<forall>u. FetchSettled u BitmapReady \<notin> set cs"
  shows "\<not> loadResolved (imageCalls cs) \<and> called (imageCalls cs) = []"
  using assms
proof (induction cs rule: rev_induct)
  case Nil
  then show ?case by (simp add: imageCalls_def newImage_def hintImageSize_def)
next
  case (snoc c cs)
  then have "\<not> loadResolved (imageCalls cs) \<and> called (imageCalls cs) = []" by simp
  moreover from snoc.prems have "\<forall>u. c \<noteq> FetchSettled u BitmapReady" by auto
  ultimately show ?case
    unfolding imageCalls_snoc using imageCall_unresolved by blast
qed

text \<open>
  C10. Of the callbacks given to \<open>addEventListener\<close>, an \<open>Image\<close> of the worker only
  ever calls those registered for \<open>load\<close>: \<open>addEventListener\<close> with any other event
  name leaves the image as it is. A fetch that fails (the request is rejected, or its
  body cannot be read or decoded) neither resolves the load promise nor calls a
  callback; so as long as no fetch has given a bitmap, the load promise is unresolved
  and no callback has been called, whatever listeners were registered: there is no
  error event and the load never settles.
\<close>

theorem worker_image_only_load:
  "set (called (imageCalls cs :: 'cb Image)) \<subseteq> {cb. AddEventListener ''load'' cb \<in> set cs}
   \<and> (\<forall>img eventName cb. eventName \<noteq> ''load'' \<longrightarrow>
         imageCall img (AddEventListener eventName cb) = (img :: 'cb Image))
   \<and> (\<forall>img u outcome. outcome \<noteq> BitmapReady \<longrightarrow>
         loadResolved (imageCall img (FetchSettled u outcome)) = loadResolved (img :: 'cb Image)
         \<and> called (imageCall img (FetchSettled u outcome)) = called img)
   \<and> ((\<forall>u. FetchSettled u BitmapReady \<notin> set cs) \<longrightarrow>
         \<not> loadResolved (imageCalls cs :: 'cb Image) \<and> called (imageCalls cs :: 'cb Image) = [])"
proof (intro conjI allI impI)
  show "set (called (imageCalls cs :: 'cb Image)) \<subseteq> {cb. AddEventListener ''load'' cb \<in> set cs}"
    using imageCalls_called_load [of cs] by blast
next
  fix img :: "'cb Image" and eventName cb
  assume "eventName \<noteq> ''load''"
  then show "imageCall img (AddEventListener eventName cb) = img" by simp
next
  fix img :: "'cb Image" and u outcome
  assume "outcome \<noteq> BitmapReady"
  then show "loadResolved (imageCall img (FetchSettled u outcome)) = loadResolved img"
    and "called (imageCall img (FetchSettled u outcome)) = called img"
    by (simp_all add: Let_def)
next
  assume "\<forall>u. FetchSettled u BitmapReady \<notin> set cs"
  then show "\<not> loadResolved (imageCalls cs :: 'cb Image)" and "called (imageCalls cs :: 'cb Image) = []"
    using imageCalls_unresolved [of cs] by simp_all
qed

theorem worker_image_only_load_witness:
  "called (imageCalls
       [AddEventListener ''error'' (1 :: nat), AddEventListener ''load'' 2,
        SetSrc ''http://example.org/tile.png'',
        FetchSettled ''http://example.org/tile.png'' FetchRejected]) = []
   \<and> loadResolved (imageCalls
       [AddEventListener ''error'' (1 :: nat), AddEventListener ''load'' 2,
        SetSrc ''http://example.org/tile.png'',
        FetchSettled ''http://example.org/tile.png'' FetchRejected]) = False
   \<and> ''error'' \<noteq> ''load''
   \<and> imageCall newImage (AddEventListener ''error'' (1 :: nat)) = newImage
   \<and> FetchRejected \<noteq> BitmapReady
   \<and> called (imageCalls
       [AddEventListener ''error'' (1 :: nat), AddEventListener ''load'' 2,
        SetSrc ''http://example.org/tile.png'',
        FetchSettled ''http://example.org/tile.png'' BitmapReady]) = [2]"
  using worker_image_only_load
    [of "[AddEventListener ''error'' (1 :: nat), AddEventListener ''load'' 2,
          SetSrc ''http://example.org/tile.png'',
          FetchSettled ''http://example.org/tile.png'' FetchRejected]"]
  by (simp add: imageCalls_def newImage_def hintImageSize_def loadPromise_then_def
      loadPromiseResolver_def Let_def)

end
